theory Spec2Isabelle
  imports Complex_Main "HOL-Library.Multiset"
begin

section \<open>Dates\<close>

text \<open>
  The layer utilities of \<^verbatim>\<open>web/js/modules/layers/util.js\<close> compute with JavaScript
  \<^verbatim>\<open>Date\<close> objects. A date is modelled by its time value, the number of milliseconds
  since 1970-01-01T00:00:00Z, as an unbounded \<^typ>\<open>int\<close>; the day and calendar functions
  below are the ones of ECMA-262 (section "Date objects"), which define what the
  \<^verbatim>\<open>Date\<close> constructor and the getters and setters used by the source compute.
  Two things of the host are fixed by the model and said here once:
  \<^item> the local time zone is a constant offset \<open>tz\<close>, the value of
    \<^verbatim>\<open>getTimezoneOffset()\<close> in minutes (UTC minus local time), with no daylight saving;
  \<^item> time values are not clipped to the range of valid dates (no invalid date arises).
  The catalog writes a date as an ISO string and an interval as a decimal numeral
  (\<^verbatim>\<open>'1'\<close>, \<^verbatim>\<open>'8'\<close>); the model holds the instant and the number they denote, so
  \<^verbatim>\<open>startDate === endDate\<close> is equality of instants, \<^verbatim>\<open>dateInterval === '1'\<close> is
  equality with 1 and \<^verbatim>\<open>Number(dateInterval)\<close> is the number itself.
\<close>

type_synonym date = int

definition msPerDay :: int where "msPerDay = 86400000"
definition msPerHour :: int where "msPerHour = 3600000"
definition msPerMinute :: int where "msPerMinute = 60000"

definition Day :: "date \<Rightarrow> int" where
  "Day t = t div msPerDay"

definition TimeWithinDay :: "date \<Rightarrow> int" where
  "TimeWithinDay t = t mod msPerDay"

definition leapYear :: "int \<Rightarrow> bool" where
  "leapYear y = (y mod 4 = 0 \<and> (y mod 100 \<noteq> 0 \<or> y mod 400 = 0))"

definition DaysInYear :: "int \<Rightarrow> int" where
  "DaysInYear y = (if leapYear y then 366 else 365)"

definition DayFromYear :: "int \<Rightarrow> int" where
  "DayFromYear y =
     365 * (y - 1970) + (y - 1969) div 4 - (y - 1901) div 100 + (y - 1601) div 400"

lemma div_succ:
  fixes a n :: int
  assumes "0 < n"
  shows "(a + 1) div n = a div n + (if (a + 1) mod n = 0 then 1 else 0)"
proof (cases "n = 1")
  case True
  then show ?thesis by simp
next
  case False
  with assms have n: "1 < n" by simp
  have split: "(a + 1) div n = a div n + (a mod n + 1) div n"
    using div_add1_eq [of a 1 n] n by simp
  have m: "(a + 1) mod n = (a mod n + 1) mod n"
    by (simp add: mod_add_left_eq)
  have lo: "0 \<le> a mod n" and hi: "a mod n < n"
    using assms by simp_all
  show ?thesis
  proof (cases "a mod n + 1 = n")
    case True
    then show ?thesis using split m n by simp
  next
    case False
    with hi have "a mod n + 1 < n" by simp
    with lo have "(a mod n + 1) div n = 0" "(a mod n + 1) mod n = a mod n + 1"
      by simp_all
    with lo show ?thesis using split m by simp
  qed
qed

lemma div_next:
  fixes a b n :: int
  assumes "0 < n" and "b = a + 1"
  shows "b div n = a div n + (if b mod n = 0 then 1 else 0)"
  using div_succ [OF assms(1), of a] assms(2) by simp

lemma mod_shift_4: "(y - 1968) mod 4 = y mod 4" for y :: int
  using mod_mult_self1 [of y "- 492" 4] by simp

lemma mod_shift_100: "(y - 1900) mod 100 = y mod 100" for y :: int
  using mod_mult_self1 [of y "- 19" 100] by simp

lemma mod_shift_400: "(y - 1600) mod 400 = y mod 400" for y :: int
  using mod_mult_self1 [of y "- 4" 400] by simp

lemma leap_count:
  fixes A B C A' B' C' x :: int
  assumes "A' = A + (if p4 then 1 else 0)" and "B' = B + (if p100 then 1 else 0)"
    and "C' = C + (if p400 then 1 else 0)" and "p100 \<Longrightarrow> p4" and "p400 \<Longrightarrow> p100"
  shows "365 * (x + 1) + A' - B' + C' =
         365 * x + A - B + C + (if p4 \<and> (\<not> p100 \<or> p400) then 366 else 365)"
  using assms by (cases p4; cases p100; cases p400; simp)

lemma DayFromYear_step: "DayFromYear (y + 1) = DayFromYear y + DaysInYear y"
proof -
  have a: "(y - 1968) div 4 = (y - 1969) div 4 + (if y mod 4 = 0 then 1 else 0)"
  proof -
    have p: "(0::int) < 4" and q: "y - 1968 = y - 1969 + 1" by simp_all
    show ?thesis using div_next [OF p q] unfolding mod_shift_4 .
  qed
  have b: "(y - 1900) div 100 = (y - 1901) div 100 + (if y mod 100 = 0 then 1 else 0)"
  proof -
    have p: "(0::int) < 100" and q: "y - 1900 = y - 1901 + 1" by simp_all
    show ?thesis using div_next [OF p q] unfolding mod_shift_100 .
  qed
  have c: "(y - 1600) div 400 = (y - 1601) div 400 + (if y mod 400 = 0 then 1 else 0)"
  proof -
    have p: "(0::int) < 400" and q: "y - 1600 = y - 1601 + 1" by simp_all
    show ?thesis using div_next [OF p q] unfolding mod_shift_400 .
  qed
  have d: "y mod 100 = 0 \<Longrightarrow> y mod 4 = 0"
    using mod_mod_cancel [of 4 100 y] by simp
  have e: "y mod 400 = 0 \<Longrightarrow> y mod 100 = 0"
    using mod_mod_cancel [of 100 400 y] by simp
  have f: "DayFromYear (y + 1) =
      365 * (y - 1970 + 1) + (y - 1968) div 4 - (y - 1900) div 100 + (y - 1600) div 400"
  proof -
    have "y + 1 - 1970 = y - 1970 + 1" "y + 1 - 1969 = y - 1968" "y + 1 - 1901 = y - 1900"
      "y + 1 - 1601 = y - 1600" by simp_all
    then show ?thesis by (simp only: DayFromYear_def)
  qed
  show ?thesis
    unfolding f DaysInYear_def leapYear_def
    using leap_count [OF a b c d e, of "y - 1970"] by (simp only: DayFromYear_def)
qed

lemma DayFromYear_pred_less: "DayFromYear (y - 1) < DayFromYear y"
  using DayFromYear_step [of "y - 1"] by (simp add: DaysInYear_def)

text \<open>
  \<^verbatim>\<open>YearFromTime(t)\<close> is, in ECMA-262, the largest year \<open>y\<close> whose first day is not
  after \<open>t\<close>. \<open>yearDown\<close> searches it downwards from a year that is not too small.
\<close>

function yearDown :: "int \<Rightarrow> int \<Rightarrow> int" where
  "yearDown y d = (if DayFromYear y \<le> d then y else yearDown (y - 1) d)"
  by pat_completeness auto
termination yearDown
  by (relation "measure (\<lambda>(y, d). nat (DayFromYear y - d))")
     (use DayFromYear_pred_less in \<open>auto simp: nat_less_iff\<close>)

definition YearFromDay :: "int \<Rightarrow> int" where
  "YearFromDay d = yearDown (1970 + (if 0 \<le> d then d div 365 else d div 366)) d"

definition YearFromTime :: "date \<Rightarrow> int" where
  "YearFromTime t = YearFromDay (Day t)"

definition DayWithinYear :: "date \<Rightarrow> int" where
  "DayWithinYear t = Day t - DayFromYear (YearFromTime t)"

definition InLeapYear :: "date \<Rightarrow> int" where
  "InLeapYear t = (if leapYear (YearFromTime t) then 1 else 0)"

text \<open>The number of days of a year before its month \<open>m\<close> (0 is January).\<close>

definition daysBeforeMonth :: "int \<Rightarrow> int \<Rightarrow> int" where
  "daysBeforeMonth l m =
     (if m \<le> 0 then 0 else if m = 1 then 31 else if m = 2 then 59 + l
      else if m = 3 then 90 + l else if m = 4 then 120 + l else if m = 5 then 151 + l
      else if m = 6 then 181 + l else if m = 7 then 212 + l else if m = 8 then 243 + l
      else if m = 9 then 273 + l else if m = 10 then 304 + l else if m = 11 then 334 + l
      else 365 + l)"

definition monthOfDay :: "int \<Rightarrow> int \<Rightarrow> int" where
  "monthOfDay l d =
     (if d < 31 then 0 else if d < 59 + l then 1 else if d < 90 + l then 2
      else if d < 120 + l then 3 else if d < 151 + l then 4 else if d < 181 + l then 5
      else if d < 212 + l then 6 else if d < 243 + l then 7 else if d < 273 + l then 8
      else if d < 304 + l then 9 else if d < 334 + l then 10 else 11)"

definition MonthFromTime :: "date \<Rightarrow> int" where
  "MonthFromTime t = monthOfDay (InLeapYear t) (DayWithinYear t)"

definition DateFromTime :: "date \<Rightarrow> int" where
  "DateFromTime t =
     DayWithinYear t - daysBeforeMonth (InLeapYear t) (MonthFromTime t) + 1"

definition HourFromTime :: "date \<Rightarrow> int" where
  "HourFromTime t = (t div msPerHour) mod 24"

definition MinFromTime :: "date \<Rightarrow> int" where
  "MinFromTime t = (t div msPerMinute) mod 60"

definition MakeTime :: "int \<Rightarrow> int \<Rightarrow> int \<Rightarrow> int \<Rightarrow> int" where
  "MakeTime h m s ms = h * msPerHour + m * msPerMinute + s * 1000 + ms"

definition MakeDay :: "int \<Rightarrow> int \<Rightarrow> int \<Rightarrow> int" where
  "MakeDay y m dt =
     (let ym = y + m div 12; mn = m mod 12
      in DayFromYear ym + daysBeforeMonth (if leapYear ym then 1 else 0) mn + dt - 1)"

definition MakeDate :: "int \<Rightarrow> int \<Rightarrow> date" where
  "MakeDate day time = day * msPerDay + time"


definition SecFromTime :: "date \<Rightarrow> int" where
  "SecFromTime t = (t div 1000) mod 60"

definition msFromTime :: "date \<Rightarrow> int" where
  "msFromTime t = t mod 1000"

text \<open>
  Local time and UTC differ by the constant offset \<open>tz\<close> (minutes, as
  \<^verbatim>\<open>getTimezoneOffset()\<close> returns it).
\<close>

definition UTC :: "int \<Rightarrow> date \<Rightarrow> date" where
  "UTC tz t = t + tz * msPerMinute"

definition LocalTime :: "int \<Rightarrow> date \<Rightarrow> date" where
  "LocalTime tz t = t - tz * msPerMinute"

text \<open>
  \<^verbatim>\<open>new Date(year, month, day, hours, minutes, seconds)\<close> reads its fields in local
  time; fields out of range carry over (month 12 is January of the next year, day 0 the
  last day of the month before), and a year from 0 to 99 stands for 1900 + year.
\<close>

definition fullYear :: "int \<Rightarrow> int" where
  "fullYear y = (if 0 \<le> y \<and> y \<le> 99 then 1900 + y else y)"

definition newDate :: "int \<Rightarrow> int \<Rightarrow> int \<Rightarrow> int \<Rightarrow> int \<Rightarrow> int \<Rightarrow> int \<Rightarrow> date" where
  "newDate tz y m d h mi s =
     UTC tz (MakeDate (MakeDay (fullYear y) m d) (MakeTime h mi s 0))"

definition newDate3 :: "int \<Rightarrow> int \<Rightarrow> int \<Rightarrow> int \<Rightarrow> date" where
  "newDate3 tz y m d = newDate tz y m d 0 0 0"

text \<open>\<^verbatim>\<open>Date.UTC(year, month, day)\<close> for a four-digit year: the notation of the examples.\<close>

definition utcDate :: "int \<Rightarrow> int \<Rightarrow> int \<Rightarrow> date" where
  "utcDate y m d = MakeDate (MakeDay y (m - 1) d) 0"

definition utcDateTime :: "int \<Rightarrow> int \<Rightarrow> int \<Rightarrow> int \<Rightarrow> int \<Rightarrow> date" where
  "utcDateTime y m d h mi = MakeDate (MakeDay y (m - 1) d) (MakeTime h mi 0 0)"

text \<open>\<^verbatim>\<open>date.setMinutes(min)\<close>, in local time; the result is the new time value.\<close>

definition setMinutes :: "int \<Rightarrow> date \<Rightarrow> int \<Rightarrow> date" where
  "setMinutes tz t mi =
     (let l = LocalTime tz t
      in UTC tz (MakeDate (Day l) (MakeTime (HourFromTime l) mi (SecFromTime l) (msFromTime l))))"

subsection \<open>The helpers of \<^verbatim>\<open>util/util.js\<close>\<close>

text \<open>
  Modelled from the spec: \<^verbatim>\<open>util.getTimezoneOffsetDate\<close> is not among the sources. The
  spec's DateMath names it "timezone normalization": each stepped instant, built in
  local time, is "normalized to the configuring timezone offset", that is, moved by the
  offset so that its UTC fields are the local fields it was built from.
\<close>

definition getTimezoneOffsetDate :: "int \<Rightarrow> date \<Rightarrow> date" where
  "getTimezoneOffsetDate tz t = t - tz * msPerMinute"

text \<open>
  Modelled from the spec: \<^verbatim>\<open>util.getUTCNumbers\<close> is not among the sources; the spec's
  DateMath names it "UTC field extraction". The caller's prefix only names the fields.
\<close>

record utcNumbers =
  Year :: int
  Month :: int
  Day_of :: int
  Hour :: int
  Minute :: int

definition getUTCNumbers :: "date \<Rightarrow> utcNumbers" where
  "getUTCNumbers t =
     \<lparr>Year = YearFromTime t, Month = MonthFromTime t, Day_of = DateFromTime t,
      Hour = HourFromTime t, Minute = MinFromTime t\<rparr>"

text \<open>
  Modelled from the spec: \<^verbatim>\<open>util.yearDiff\<close>, \<^verbatim>\<open>util.monthDiff\<close>, \<^verbatim>\<open>util.dayDiff\<close> and
  \<^verbatim>\<open>util.minuteDiff\<close> are not among the sources; the spec's DateMath names them the
  "difference in days/months/years" of two dates. They only bound the loops of the
  steppers, which filter every stepped instant against the end of the range.
\<close>

definition yearDiff :: "date \<Rightarrow> date \<Rightarrow> int" where
  "yearDiff a b = YearFromTime b - YearFromTime a"

definition monthDiff :: "date \<Rightarrow> date \<Rightarrow> int" where
  "monthDiff a b =
     (YearFromTime b - YearFromTime a) * 12 + (MonthFromTime b - MonthFromTime a)"

definition ceilDiv :: "int \<Rightarrow> int \<Rightarrow> int" where
  "ceilDiv a k = - ((- a) div k)"

definition dayDiff :: "date \<Rightarrow> date \<Rightarrow> int" where
  "dayDiff a b = ceilDiv (abs (b - a)) msPerDay"

definition minuteDiff :: "date \<Rightarrow> date \<Rightarrow> int" where
  "minuteDiff a b = (2 * abs (b - a) + msPerMinute) div (2 * msPerMinute)"

section \<open>Layers and date ranges\<close>

datatype period = Yearly | Monthly | Daily | Subdaily

record dateRange =
  startDate :: date
  endDate :: date
  dateInterval :: int

record layer =
  period :: period
  dateRanges :: "dateRange list option"
  futureTime :: "string option"
  ongoing :: bool

text \<open>
  Reading a property of \<^verbatim>\<open>undefined\<close> throws a \<^verbatim>\<open>TypeError\<close> in the source; a function
  that can throw returns a sum, \<open>Inl\<close> the error.
\<close>

datatype error = TypeError

subsection \<open>The limited range: previous, current and next date\<close>

definition getBreakMaxDate :: "int \<Rightarrow> period \<Rightarrow> date \<Rightarrow> date option" where
  "getBreakMaxDate tz p rangeEndDate =
     (let n = getUTCNumbers rangeEndDate
      in case p of
           Yearly \<Rightarrow> Some (newDate3 tz (Year n + 1) (Month n) (Day_of n))
         | Monthly \<Rightarrow> Some (newDate3 tz (Year n) (Month n + 1) (Day_of n))
         | Daily \<Rightarrow> Some (newDate3 tz (Year n) (Month n) (Day_of n + 1))
         | Subdaily \<Rightarrow> None)"

text \<open>The result is (dayBeforeCurrent, currentDateZeroed, dayAfterCurrent).\<close>

definition addSubDatesBasedOnPeriod ::
  "int \<Rightarrow> period \<Rightarrow> int \<Rightarrow> int \<Rightarrow> int \<Rightarrow> int \<Rightarrow> int \<Rightarrow> (date \<times> date \<times> date) option" where
  "addSubDatesBasedOnPeriod tz p minCurrentYear minCurrentMonth minCurrentDay
       minStartMonth minStartDay =
     (case p of
        Yearly \<Rightarrow> Some (newDate3 tz (minCurrentYear - 1) minStartMonth minStartDay,
                        newDate3 tz minCurrentYear minStartMonth minStartDay,
                        newDate3 tz (minCurrentYear + 1) minStartMonth minStartDay)
      | Monthly \<Rightarrow> Some (newDate3 tz minCurrentYear (minCurrentMonth - 1) minStartDay,
                         newDate3 tz minCurrentYear minCurrentMonth minStartDay,
                         newDate3 tz minCurrentYear (minCurrentMonth + 1) minStartDay)
      | Daily \<Rightarrow> Some (newDate3 tz minCurrentYear minCurrentMonth (minCurrentDay - 1),
                       newDate3 tz minCurrentYear minCurrentMonth minCurrentDay,
                       newDate3 tz minCurrentYear minCurrentMonth (minCurrentDay + 1))
      | Subdaily \<Rightarrow> None)"

definition getPrevCurrentNextDates ::
  "int \<Rightarrow> date \<Rightarrow> date \<Rightarrow> date \<Rightarrow> date \<Rightarrow> date \<Rightarrow> date list" where
  "getPrevCurrentNextDates tz currentDateZeroed dayBeforeCurrent dayAfterCurrent
       breakMinDateTime breakMaxDateTime =
     (if dayBeforeCurrent \<ge> breakMinDateTime
      then [getTimezoneOffsetDate tz dayBeforeCurrent] else [])
     @ [getTimezoneOffsetDate tz currentDateZeroed]
     @ (if dayAfterCurrent \<le> breakMaxDateTime
        then [getTimezoneOffsetDate tz dayAfterCurrent] else [])"

definition getLimitedDateRange :: "int \<Rightarrow> layer \<Rightarrow> date \<Rightarrow> error + date list" where
  "getLimitedDateRange tz def currentDate =
     (case dateRanges def of
        None \<Rightarrow> Inl TypeError
      | Some [] \<Rightarrow> Inl TypeError
      | Some (dateRange # _) \<Rightarrow>
          (let rangeStartDate = startDate dateRange;
               rangeEndDate = endDate dateRange;
               breakMinDateTime = rangeStartDate
           in case getBreakMaxDate tz (period def) rangeEndDate of
                None \<Rightarrow> Inl TypeError
              | Some breakMaxDateTime \<Rightarrow>
                  if currentDate \<ge> breakMinDateTime \<and> currentDate \<le> breakMaxDateTime
                  then
                    (let c = getUTCNumbers currentDate; s = getUTCNumbers rangeStartDate
                     in case addSubDatesBasedOnPeriod tz (period def) (Year c) (Month c)
                               (Day_of c) (Month s) (Day_of s) of
                          None \<Rightarrow> Inl TypeError
                        | Some (dayBeforeCurrent, currentDateZeroed, dayAfterCurrent) \<Rightarrow>
                            Inr (getPrevCurrentNextDates tz currentDateZeroed
                                   dayBeforeCurrent dayAfterCurrent
                                   breakMinDateTime breakMaxDateTime))
                  else Inr []))"


subsection \<open>The steppers of the full traversal\<close>

text \<open>
  A loop \<^verbatim>\<open>for (i = 0; i <= difference + 1; i += 1)\<close> runs over \<open>loopIndices difference\<close>.
  The difference is \<^verbatim>\<open>undefined\<close> (\<open>None\<close>) when the current date is outside the range:
  \<^verbatim>\<open>undefined + 1\<close> is \<^verbatim>\<open>NaN\<close>, no comparison with it holds and the body never runs.
  The intervals of the catalog are positive; with an interval of 0 the source divides by
  it, the bound is infinite and the loop does not end: that input is outside the model.
\<close>

definition loopIndices :: "int option \<Rightarrow> int list" where
  "loopIndices difference = (case difference of None \<Rightarrow> [] | Some n \<Rightarrow> [0 .. n + 1])"

definition getRevisedMaxEndDate :: "date \<Rightarrow> date \<Rightarrow> date \<Rightarrow> date \<Rightarrow> date" where
  "getRevisedMaxEndDate minDate maxEndDate startDateLimit endDateLimit =
     (let frontDateWithinRange = startDateLimit \<ge> minDate \<and> startDateLimit \<le> maxEndDate;
          backDateWithinRange = endDateLimit \<le> maxEndDate \<and> endDateLimit \<ge> minDate
      in if frontDateWithinRange \<or> backDateWithinRange then endDateLimit else maxEndDate)"

text \<open>
  The loop of \<^verbatim>\<open>getDateArrayLastDateInOrder\<close> reads index \<open>j\<close>, which is the last index
  of the array as long as every step before popped one element; it stops acting once the
  date was pushed (\<^verbatim>\<open>endDateFound\<close>). \<open>popUntilEarlier\<close> is that loop on an array that is
  not empty, and returns the empty array when every element was popped.
\<close>

fun popUntilEarlier :: "date \<Rightarrow> date list \<Rightarrow> date list" where
  "popUntilEarlier timeUnit [] = []"
| "popUntilEarlier timeUnit (x # xs) =
     (if timeUnit \<le> last (x # xs) then popUntilEarlier timeUnit (butlast (x # xs))
      else (x # xs) @ [timeUnit])"

definition getDateArrayLastDateInOrder :: "date \<Rightarrow> date list \<Rightarrow> date list" where
  "getDateArrayLastDateInOrder timeUnit dateArray =
     (if dateArray \<noteq> [] \<and> timeUnit < last dateArray
      then popUntilEarlier timeUnit dateArray else dateArray)"

text \<open>
  \<^verbatim>\<open>getMinStartDate\<close> is called with the periods \<^verbatim>\<open>'monthly'\<close> and \<^verbatim>\<open>'daily'\<close> only. The
  state of its loop is (minStartDate, prevDate).
\<close>

definition minStartStep ::
  "int \<Rightarrow> period \<Rightarrow> int \<Rightarrow> date \<Rightarrow> int \<Rightarrow> int \<Rightarrow> int \<Rightarrow> date option \<times> date option \<Rightarrow> int
     \<Rightarrow> date option \<times> date option" where
  "minStartStep tz p interval startDateLimit minYear minMonth minDay st i =
     (case st of
        (Some m, prevDate) \<Rightarrow> (Some m, prevDate)
      | (None, prevDate) \<Rightarrow>
          (let timeUnit = getTimezoneOffsetDate tz
                 (if p = Monthly then newDate3 tz minYear (minMonth + i * interval) minDay
                  else newDate3 tz minYear minMonth (minDay + i * interval))
           in if timeUnit > startDateLimit then (prevDate, prevDate)
              else (None, Some timeUnit)))"

definition getMinStartDate ::
  "int \<Rightarrow> int \<Rightarrow> period \<Rightarrow> int \<Rightarrow> date \<Rightarrow> int \<Rightarrow> int \<Rightarrow> int \<Rightarrow> date option" where
  "getMinStartDate tz timeDiff p interval startDateLimit minYear minMonth minDay =
     fst (foldl (minStartStep tz p interval startDateLimit minYear minMonth minDay)
            (None, None) [0 .. timeDiff + 1])"

definition getYearDateRange ::
  "int \<Rightarrow> date \<Rightarrow> date \<Rightarrow> date \<Rightarrow> int \<Rightarrow> date list \<Rightarrow> date list" where
  "getYearDateRange tz currentDateTime minDate maxDate interval dateArray =
     (let mx = getUTCNumbers maxDate; mn = getUTCNumbers minDate;
          maxYearDateTime = newDate3 tz (Year mx + interval) (Month mx) (Day_of mx);
          yearDifference =
            (if currentDateTime \<ge> minDate \<and> currentDateTime \<le> maxYearDateTime
             then Some (yearDiff minDate maxYearDateTime) else None)
      in foldl (\<lambda>newDateArray i.
                  (let year = newDate3 tz (Year mn + i * interval) (Month mn) (Day_of mn)
                   in if year < maxYearDateTime
                      then newDateArray @ [getTimezoneOffsetDate tz year]
                      else newDateArray))
           dateArray (loopIndices yearDifference))"

text \<open>
  The steppers receive the limits as one optional pair: \<^verbatim>\<open>rangeLimitsProvided\<close> holds
  when both limits were given, and the limits are read only then. The loops of
  \<^verbatim>\<open>getMonthDateRange\<close> and \<^verbatim>\<open>getDayDateRange\<close> have the same body, \<open>pushStepped\<close>, on
  the stepped month or day \<open>unit\<close>.
\<close>

definition pushStepped ::
  "(date \<times> date) option \<Rightarrow> date option \<Rightarrow> date \<Rightarrow> date \<Rightarrow> date \<Rightarrow> date list \<Rightarrow> date list" where
  "pushStepped limits minStartDate maxUnitDate maxEndDateTime unit newDateArray =
     (if unit < maxEndDateTime then
        (case limits of
           None \<Rightarrow> newDateArray @ [unit]
         | Some _ \<Rightarrow>
             (let arr = (if newDateArray \<noteq> []
                         then getDateArrayLastDateInOrder unit newDateArray
                         else newDateArray)
              in case minStartDate of
                   Some m \<Rightarrow>
                     (if unit = m \<or> (unit > m \<and> unit < maxUnitDate) then arr @ [unit] else arr)
                 | None \<Rightarrow> arr @ [unit]))
      else newDateArray)"

definition getMonthDateRange ::
  "int \<Rightarrow> (date \<times> date) option \<Rightarrow> date \<Rightarrow> date \<Rightarrow> date \<Rightarrow> int \<Rightarrow> date list \<Rightarrow> date list" where
  "getMonthDateRange tz limits currentDateTime minDate maxDate dateIntervalNum dateArray =
     (let mx = getUTCNumbers maxDate; mn = getUTCNumbers minDate;
          maxMonthDate = getTimezoneOffsetDate tz
            (newDate3 tz (Year mx) (Month mx + dateIntervalNum) (Day_of mx));
          maxEndDateTime =
            (case limits of
               Some (startDateLimit, endDateLimit) \<Rightarrow>
                 getRevisedMaxEndDate minDate maxMonthDate startDateLimit endDateLimit
             | None \<Rightarrow> maxMonthDate);
          monthDifference =
            (if currentDateTime \<ge> minDate \<and> currentDateTime \<le> maxEndDateTime
             then Some (ceilDiv (monthDiff minDate maxMonthDate) dateIntervalNum) else None);
          minStartMonthDate =
            (case (limits, monthDifference) of
               (Some (startDateLimit, _), Some d) \<Rightarrow>
                 if d = 0 then None
                 else getMinStartDate tz d Monthly dateIntervalNum startDateLimit
                        (Year mn) (Month mn) (Day_of mn)
             | _ \<Rightarrow> None)
      in foldl (\<lambda>newDateArray i.
                  pushStepped limits minStartMonthDate maxMonthDate maxEndDateTime
                    (getTimezoneOffsetDate tz
                       (newDate3 tz (Year mn) (Month mn + i * dateIntervalNum) (Day_of mn)))
                    newDateArray)
           dateArray (loopIndices monthDifference))"

definition getDayDateRange ::
  "int \<Rightarrow> (date \<times> date) option \<Rightarrow> date \<Rightarrow> date \<Rightarrow> date \<Rightarrow> int \<Rightarrow> date list \<Rightarrow> date list" where
  "getDayDateRange tz limits currentDateTime minDate maxDate dateIntervalNum dateArray =
     (let mx = getUTCNumbers maxDate; mn = getUTCNumbers minDate;
          maxDayDate = newDate3 tz (Year mx) (Month mx) (Day_of mx + dateIntervalNum);
          maxEndDate =
            (case limits of
               Some (startDateLimit, endDateLimit) \<Rightarrow>
                 getRevisedMaxEndDate minDate maxDayDate startDateLimit endDateLimit
             | None \<Rightarrow> maxDayDate);
          dayDifference =
            (if currentDateTime \<ge> minDate \<and> currentDateTime \<le> maxEndDate
             then Some (ceilDiv (dayDiff minDate maxEndDate) dateIntervalNum) else None);
          minStartDayDate =
            (case (limits, dayDifference) of
               (Some (startDateLimit, _), Some d) \<Rightarrow>
                 if d = 0 then None
                 else getMinStartDate tz d Daily dateIntervalNum startDateLimit
                        (Year mn) (Month mn) (Day_of mn)
             | _ \<Rightarrow> None)
      in foldl (\<lambda>newDateArray i.
                  pushStepped limits minStartDayDate maxDayDate maxEndDate
                    (getTimezoneOffsetDate tz
                       (newDate3 tz (Year mn) (Month mn) (Day_of mn + i * dateIntervalNum)))
                    newDateArray)
           dateArray (loopIndices dayDifference))"


text \<open>
  The indices of the loop \<^verbatim>\<open>for (i = 0; i <= minuteDifference + 1; i += dateIntervalNum)\<close>
  of the subdaily stepper, for a positive interval. (With an interval that is not
  positive the source does not leave the loop once it has entered it; that input is
  outside the model, which gives it no index.)
\<close>

function stepsUpTo :: "int \<Rightarrow> int \<Rightarrow> int \<Rightarrow> int list" where
  "stepsUpTo i bound k = (if 0 < k \<and> i \<le> bound then i # stepsUpTo (i + k) bound k else [])"
  by pat_completeness auto
termination stepsUpTo
  by (relation "measure (\<lambda>(i, bound, k). nat (bound - i + 1))") auto

definition getSubdailyDateRange ::
  "int \<Rightarrow> (date \<times> date) option \<Rightarrow> date \<Rightarrow> date \<Rightarrow> date \<Rightarrow> int \<Rightarrow> date list \<Rightarrow> date list" where
  "getSubdailyDateRange tz limits currentDateTime minDate maxDate dateIntervalNum dateArray =
     (let mx = getUTCNumbers maxDate; mn = getUTCNumbers minDate;
          maxMinuteDate0 = newDate tz (Year mx) (Month mx) (Day_of mx) (Hour mx)
                             (Minute mx + dateIntervalNum) 0;
          hourBeforeStartDateLimit =
            (case limits of
               Some (startDateLimit, endDateLimit) \<Rightarrow>
                 setMinutes tz startDateLimit (Minute mn) - tz * 60000 - 60 * 60000
             | None \<Rightarrow> setMinutes tz currentDateTime (Minute mn) - 60 * 60000);
          hourAfterEndDateLimit =
            (case limits of
               Some (startDateLimit, endDateLimit) \<Rightarrow>
                 setMinutes tz endDateLimit (Minute mn) - tz * 60000 + 60 * 60000
             | None \<Rightarrow> setMinutes tz currentDateTime (Minute mn) + 60 * 60000);
          minMinuteDate =
            (case limits of
               Some _ \<Rightarrow>
                 (let minMinuteDateMinusIntervalOffset = getTimezoneOffsetDate tz
                        (newDate tz (Year mn) (Month mn) (Day_of mn) (Hour mn)
                           (Minute mn - dateIntervalNum) 0)
                  in if hourBeforeStartDateLimit < minDate then hourBeforeStartDateLimit
                     else if hourBeforeStartDateLimit > minMinuteDateMinusIntervalOffset
                     then hourBeforeStartDateLimit else minDate)
             | None \<Rightarrow>
                 if hourBeforeStartDateLimit < minDate then minDate
                 else hourBeforeStartDateLimit);
          maxMinuteDate =
            (if hourAfterEndDateLimit > maxMinuteDate0 then maxMinuteDate0
             else hourAfterEndDateLimit);
          currentDateTimeCheck =
            (case limits of
               Some _ \<Rightarrow> getTimezoneOffsetDate tz currentDateTime
             | None \<Rightarrow> currentDateTime);
          minuteDifference =
            (if currentDateTimeCheck \<ge> minMinuteDate \<and> currentDateTimeCheck \<le> maxMinuteDate
             then Some (minuteDiff minMinuteDate maxMinuteDate) else None);
          f = getUTCNumbers minMinuteDate
      in foldl (\<lambda>newDateArray i.
                  (let built = newDate tz (Year f) (Month f) (Day_of f) (Hour f) (Minute f + i) 0;
                       subdailyTime =
                         (if limits = None then getTimezoneOffsetDate tz built else built);
                       lessThanLastDateInCollection =
                         (if newDateArray \<noteq> [] then subdailyTime > last newDateArray
                          else True)
                   in if subdailyTime \<ge> minMinuteDate \<and> lessThanLastDateInCollection
                      then newDateArray @ [subdailyTime] else newDateArray))
           dateArray
           (case minuteDifference of
              None \<Rightarrow> []
            | Some d \<Rightarrow> stepsUpTo 0 (d + 1) dateIntervalNum))"

subsection \<open>\<^verbatim>\<open>datesInDateRanges\<close>\<close>

text \<open>
  The variables that the callback of \<^verbatim>\<open>lodashEach(dateRanges, ...)\<close> updates from one
  range to the next.
\<close>

record rangeLoop =
  dateArray :: "date list"
  currentDate :: date
  hitMaxLimitOfRange :: bool
  runningMinDate :: "date option"

definition truthy :: "string option \<Rightarrow> bool" where
  "truthy v = (case v of None \<Rightarrow> False | Some str \<Rightarrow> str \<noteq> [])"

definition rangeStep ::
  "int \<Rightarrow> layer \<Rightarrow> (date \<times> date) option \<Rightarrow> date \<Rightarrow> bool \<Rightarrow> nat \<Rightarrow> nat \<times> dateRange
     \<Rightarrow> rangeLoop \<Rightarrow> error + rangeLoop" where
  "rangeStep tz def limits appNow singleDateRangeAndInterval n ir st =
     (let index = fst ir; dateRange = snd ir;
          dateIntervalNum = dateInterval dateRange;
          lastDateInDateArray =
            (if dateArray st = [] then None else Some (last (dateArray st)));
          minDate = startDate dateRange;
          currentDateLessThanMinDate = currentDate st < minDate;
          currentDateGreaterThanMaxDate = currentDate st > endDate dateRange
      in if limits = None
            \<and> (currentDateLessThanMinDate \<or> currentDateGreaterThanMaxDate)
            \<and> \<not> hitMaxLimitOfRange st \<and> currentDateLessThanMinDate
         then Inr (st\<lparr>dateArray :=
                       (case lastDateInDateArray of
                          Some l \<Rightarrow>
                            if l > minDate then butlast (dateArray st) @ [minDate, l]
                            else dateArray st
                        | None \<Rightarrow> dateArray st @ [minDate]),
                     hitMaxLimitOfRange := True\<rparr>)
         else
           (case limits of
              Some (inputStartDateTime, inputEndDateTime) \<Rightarrow>
                if startDate dateRange = endDate dateRange
                then Inr (if minDate \<ge> inputStartDateTime \<and> endDate dateRange \<le> inputEndDateTime
                          then st\<lparr>dateArray := dateArray st @ [minDate]\<rparr> else st)
                else
                  (let minDateWithinRangeLimits =
                         minDate > inputStartDateTime \<and> minDate < inputEndDateTime;
                       runningMinDateAndLastDateEarlier =
                         (runningMinDate st \<noteq> None \<and>
                          (case lastDateInDateArray of Some l \<Rightarrow> l > minDate | None \<Rightarrow> False));
                       current =
                         (if currentDateLessThanMinDate \<and>
                             (minDateWithinRangeLimits \<or> runningMinDateAndLastDateEarlier)
                          then minDate else currentDate st);
                       maxDate =
                         (if index = n - 1 \<and> ongoing def
                          then (if truthy (futureTime def) then endDate dateRange else appNow)
                          else endDate dateRange);
                       yearArray =
                         (if period def = Yearly
                          then getYearDateRange tz current minDate maxDate dateIntervalNum
                                 (dateArray st)
                          else dateArray st)
                   in Inr (st\<lparr>dateArray :=
                                 (case period def of
                                    Yearly \<Rightarrow> yearArray
                                  | Monthly \<Rightarrow> getMonthDateRange tz limits current minDate
                                       maxDate dateIntervalNum yearArray
                                  | Daily \<Rightarrow> getDayDateRange tz limits current minDate
                                       maxDate dateIntervalNum yearArray
                                  | Subdaily \<Rightarrow> getSubdailyDateRange tz limits current
                                       minDate maxDate dateIntervalNum yearArray),
                               currentDate := current,
                               runningMinDate := Some minDate\<rparr>))
            | None \<Rightarrow>
                if singleDateRangeAndInterval
                then (case getLimitedDateRange tz def (currentDate st) of
                        Inl e \<Rightarrow> Inl e
                      | Inr limitedDateRange \<Rightarrow> Inr (st\<lparr>dateArray := limitedDateRange\<rparr>))
                else
                  (let current = currentDate st; maxDate = endDate dateRange;
                       yearArray =
                         (if period def = Yearly
                          then getYearDateRange tz current minDate maxDate dateIntervalNum
                                 (dateArray st)
                          else dateArray st)
                   in Inr (st\<lparr>dateArray :=
                                 (case period def of
                                    Yearly \<Rightarrow> yearArray
                                  | Monthly \<Rightarrow> getMonthDateRange tz limits current minDate
                                       maxDate dateIntervalNum yearArray
                                  | Daily \<Rightarrow> getDayDateRange tz limits current minDate
                                       maxDate dateIntervalNum yearArray
                                  | Subdaily \<Rightarrow> getSubdailyDateRange tz limits current
                                       minDate maxDate dateIntervalNum yearArray),
                               runningMinDate := Some minDate\<rparr>))))"

text \<open>The iteration over the ranges; an exception of one step ends it.\<close>

fun eachRange ::
  "(nat \<times> dateRange \<Rightarrow> rangeLoop \<Rightarrow> error + rangeLoop) \<Rightarrow> (nat \<times> dateRange) list
     \<Rightarrow> rangeLoop \<Rightarrow> error + rangeLoop" where
  "eachRange f [] st = Inr st"
| "eachRange f (ir # irs) st =
     (case f ir st of Inl e \<Rightarrow> Inl e | Inr st' \<Rightarrow> eachRange f irs st')"

text \<open>
  \<^verbatim>\<open>rangeLimitsProvided = !!(startDateLimit && endDateLimit)\<close>: the limits count when
  both are given.
\<close>

definition rangeLimits :: "date option \<Rightarrow> date option \<Rightarrow> (date \<times> date) option" where
  "rangeLimits startDateLimit endDateLimit =
     (case startDateLimit of
        None \<Rightarrow> None
      | Some s \<Rightarrow> (case endDateLimit of None \<Rightarrow> None | Some e \<Rightarrow> Some (s, e)))"

definition datesInDateRanges ::
  "int \<Rightarrow> layer \<Rightarrow> date \<Rightarrow> date option \<Rightarrow> date option \<Rightarrow> date \<Rightarrow> error + date list" where
  "datesInDateRanges tz def date startDateLimit endDateLimit appNow =
     (case dateRanges def of
        None \<Rightarrow> Inr []
      | Some ranges \<Rightarrow>
          (let limits = rangeLimits startDateLimit endDateLimit;
               singleDateRangeAndInterval =
                 (limits = None \<and> length ranges = 1 \<and> dateInterval (hd ranges) = 1)
           in case eachRange
                     (rangeStep tz def limits appNow singleDateRangeAndInterval (length ranges))
                     (zip [0 ..< length ranges] ranges)
                     \<lparr>dateArray = [], currentDate = date, hitMaxLimitOfRange = False,
                      runningMinDate = None\<rparr> of
                Inl e \<Rightarrow> Inl e
              | Inr st \<Rightarrow> Inr (dateArray st)))"


section \<open>Properties of the date resolver\<close>

subsection \<open>Example layers\<close>

definition monthlyExample :: layer where
  "monthlyExample =
     \<lparr>period = Monthly,
      dateRanges = Some [\<lparr>startDate = utcDate 2020 1 1, endDate = utcDate 2020 6 1,
                          dateInterval = 1\<rparr>],
      futureTime = None, ongoing = False\<rparr>"




definition overlapExample :: layer where
  "overlapExample =
     \<lparr>period = Daily,
      dateRanges = Some [\<lparr>startDate = utcDate 2020 1 1, endDate = utcDate 2020 1 10,
                          dateInterval = 1\<rparr>,
                         \<lparr>startDate = utcDate 2020 1 5, endDate = utcDate 2020 1 20,
                          dateInterval = 1\<rparr>],
      futureTime = None, ongoing = False\<rparr>"


subsection \<open>The limited mode\<close>

lemma limits_none:
  "sl = None \<or> el = None \<Longrightarrow> rangeLimits sl el = None"
  by (auto simp: rangeLimits_def split: option.splits)

text \<open>
  With a single range of interval 1, no pair of limits and a requested date that is not
  before the start of the range, the resolver returns what \<open>getLimitedDateRange\<close> returns.
\<close>

lemma single_range_limited:
  assumes "dateRanges def = Some [r]" and "dateInterval r = 1"
    and "sl = None \<or> el = None" and "startDate r \<le> date"
  shows "datesInDateRanges tz def date sl el appNow = getLimitedDateRange tz def date"
  using assms(1,2,4)
  by (simp add: datesInDateRanges_def limits_none [OF assms(3)] rangeStep_def Let_def
      split: sum.splits)

lemma limited_in_range:
  assumes "dateRanges def = Some [r]"
    and "getBreakMaxDate tz (period def) (endDate r) = Some breakMax"
    and "addSubDatesBasedOnPeriod tz (period def)
           (Year (getUTCNumbers date)) (Month (getUTCNumbers date)) (Day_of (getUTCNumbers date))
           (Month (getUTCNumbers (startDate r))) (Day_of (getUTCNumbers (startDate r)))
         = Some (before, zeroed, after)"
    and "startDate r \<le> date" and "date \<le> breakMax"
  shows "getLimitedDateRange tz def date =
     Inr ((if startDate r \<le> before then [getTimezoneOffsetDate tz before] else [])
          @ [getTimezoneOffsetDate tz zeroed]
          @ (if after \<le> breakMax then [getTimezoneOffsetDate tz after] else []))"
  using assms by (simp add: getLimitedDateRange_def Let_def getPrevCurrentNextDates_def)

lemma monthly_numbers:
  "getUTCNumbers (utcDate 2020 1 1) = \<lparr>Year = 2020, Month = 0, Day_of = 1, Hour = 0, Minute = 0\<rparr>"
  "getUTCNumbers (utcDate 2020 6 1) = \<lparr>Year = 2020, Month = 5, Day_of = 1, Hour = 0, Minute = 0\<rparr>"
  "getUTCNumbers (utcDate 2020 3 15) = \<lparr>Year = 2020, Month = 2, Day_of = 15, Hour = 0, Minute = 0\<rparr>"
  by code_simp+

lemma monthly_days:
  "MakeDay 2020 1 1 = 18293" "MakeDay 2020 2 1 = 18322"
  "MakeDay 2020 3 1 = 18353" "MakeDay 2020 6 1 = 18444"
  by code_simp+

lemma monthly_dates:
  "utcDate 2020 1 1 = 1577836800000" "utcDate 2020 2 1 = 1580515200000"
  "utcDate 2020 3 1 = 1583020800000" "utcDate 2020 4 1 = 1585699200000"
  "utcDate 2020 3 15 = 1584230400000"
  by code_simp+

lemma newDate3_2020:
  "newDate3 tz 2020 m d = MakeDay 2020 m d * 86400000 + tz * 60000"
  by (simp add: newDate3_def newDate_def fullYear_def UTC_def MakeDate_def MakeTime_def
      msPerDay_def msPerMinute_def msPerHour_def)

text \<open>
  Claim C2. For the layer with period monthly and the single range 2020-01-01 to
  2020-06-01 of interval 1, the requested date 2020-03-15 and no limits, the resolver
  returns exactly the three dates 2020-02-01, 2020-03-01 and 2020-04-01. This holds in
  every time zone of the host (an offset of at most 14 hours) and for every \<open>appNow\<close>.
\<close>

theorem monthly_limited_example:
  assumes "- 840 \<le> tz" and "tz \<le> 840"
  shows "datesInDateRanges tz monthlyExample (utcDate 2020 3 15) None None appNow =
         Inr [utcDate 2020 2 1, utcDate 2020 3 1, utcDate 2020 4 1]"
proof -
  let ?r = "\<lparr>startDate = utcDate 2020 1 1, endDate = utcDate 2020 6 1, dateInterval = 1\<rparr>"
  have r: "dateRanges monthlyExample = Some [?r]" and p: "period monthlyExample = Monthly"
    by (simp_all add: monthlyExample_def)
  have lo: "startDate ?r \<le> utcDate 2020 3 15"
    by (simp add: monthly_dates)
  have bm: "getBreakMaxDate tz (period monthlyExample) (endDate ?r) =
            Some (1593561600000 + tz * 60000)"
    by (simp add: p getBreakMaxDate_def monthly_numbers newDate3_2020 monthly_days)
  have hi: "utcDate 2020 3 15 \<le> 1593561600000 + tz * 60000"
    using assms by (simp add: monthly_dates)
  have cand: "addSubDatesBasedOnPeriod tz (period monthlyExample)
      (Year (getUTCNumbers (utcDate 2020 3 15))) (Month (getUTCNumbers (utcDate 2020 3 15)))
      (Day_of (getUTCNumbers (utcDate 2020 3 15)))
      (Month (getUTCNumbers (startDate ?r))) (Day_of (getUTCNumbers (startDate ?r))) =
      Some (1580515200000 + tz * 60000, 1583020800000 + tz * 60000,
            1585699200000 + tz * 60000)"
    by (simp add: p addSubDatesBasedOnPeriod_def monthly_numbers newDate3_2020 monthly_days)
  have "datesInDateRanges tz monthlyExample (utcDate 2020 3 15) None None appNow =
        getLimitedDateRange tz monthlyExample (utcDate 2020 3 15)"
    by (rule single_range_limited [OF r _ _ lo]) simp_all
  also have "\<dots> = Inr [utcDate 2020 2 1, utcDate 2020 3 1, utcDate 2020 4 1]"
    unfolding limited_in_range [OF r bm cand lo hi]
    using assms by (simp add: getTimezoneOffsetDate_def msPerMinute_def monthly_dates)
  finally show ?thesis .
qed

theorem monthly_limited_example_witness:
  "datesInDateRanges 0 monthlyExample (utcDate 2020 3 15) None None (utcDate 2021 1 1) =
   Inr [utcDate 2020 2 1, utcDate 2020 3 1, utcDate 2020 4 1]"
  using monthly_limited_example [of 0 "utcDate 2021 1 1"] by simp






subsection \<open>The full traversal\<close>

text \<open>
  Claim C1 states that the resolved dates are strictly ascending without duplicates for
  every layer. The code at two overlapping daily ranges, 2020-01-01 to 2020-01-10 and
  2020-01-05 to 2020-01-20, with the limits 2020-01-01 and 2020-01-31: stepping the
  second range, \<open>getDateArrayLastDateInOrder\<close> pops the dates from 2020-01-05 on and
  pushes 2020-01-05, and the stepper then pushes the same date again.
\<close>

theorem overlapping_ranges_duplicate:
  "datesInDateRanges 0 overlapExample (utcDate 2020 1 7)
     (Some (utcDate 2020 1 1)) (Some (utcDate 2020 1 31)) (utcDate 2021 1 1) =
   Inr (map (utcDate 2020 1)
          [1, 2, 3, 4, 5, 5, 6, 7, 8, 9, 10, 11, 12, 13, 14, 15, 16, 17, 18, 19, 20])
   \<and> \<not> distinct (map (utcDate 2020 1)
          [1, 2, 3, 4, 5, 5, 6, 7, 8, 9, 10, 11, 12, 13, 14, 15, 16, 17, 18, 19, 20])"
  by code_simp

section \<open>Overlap of date ranges\<close>

text \<open>
  \<^verbatim>\<open>getMonth\<close>, \<^verbatim>\<open>getFullYear\<close>, \<^verbatim>\<open>setMonth\<close> and \<^verbatim>\<open>setFullYear\<close> of a \<^verbatim>\<open>Date\<close> work on
  its local time; the setters keep the other fields and carry over as the constructor
  does.
\<close>

definition getMonth :: "int \<Rightarrow> date \<Rightarrow> int" where
  "getMonth tz t = MonthFromTime (LocalTime tz t)"

definition getFullYear :: "int \<Rightarrow> date \<Rightarrow> int" where
  "getFullYear tz t = YearFromTime (LocalTime tz t)"

definition setMonth :: "int \<Rightarrow> date \<Rightarrow> int \<Rightarrow> date" where
  "setMonth tz t m =
     (let l = LocalTime tz t
      in UTC tz (MakeDate (MakeDay (YearFromTime l) m (DateFromTime l)) (TimeWithinDay l)))"

definition setFullYear :: "int \<Rightarrow> date \<Rightarrow> int \<Rightarrow> date" where
  "setFullYear tz t y =
     (let l = LocalTime tz t
      in UTC tz (MakeDate (MakeDay y (MonthFromTime l) (DateFromTime l)) (TimeWithinDay l)))"

text \<open>
  \<^verbatim>\<open>dateOverlap(period, dateRanges)\<close>. The comparison function of the sort reads
  \<^verbatim>\<open>parseDate(previous.startDate).getTime()\<close>; \<^verbatim>\<open>parseDate\<close> (of
  \<^verbatim>\<open>modules/date/util.js\<close>, not among the sources) gives a new \<^verbatim>\<open>Date\<close> for the instant
  its argument denotes, which the model's range already holds.
  \<^verbatim>\<open>Array.prototype.sort\<close> is stable and sorts the array it is called on:
  \<open>sortWith\<close> is a stable sort by the comparison function, and \<open>dateOverlap\<close> returns,
  with its result, the caller's array as the call leaves it.
\<close>

definition compareRanges :: "dateRange \<Rightarrow> dateRange \<Rightarrow> int" where
  "compareRanges previous current =
     (let previousTime = startDate previous; currentTime = startDate current
      in if previousTime < currentTime then - 1
         else if previousTime = currentTime then 0
         else 1)"

fun insertWith :: "('a \<Rightarrow> 'a \<Rightarrow> int) \<Rightarrow> 'a \<Rightarrow> 'a list \<Rightarrow> 'a list" where
  "insertWith cmp x [] = [x]"
| "insertWith cmp x (y # ys) =
     (if cmp x y \<le> 0 then x # y # ys else y # insertWith cmp x ys)"

definition sortWith :: "('a \<Rightarrow> 'a \<Rightarrow> int) \<Rightarrow> 'a list \<Rightarrow> 'a list" where
  "sortWith cmp xs = foldr (insertWith cmp) xs []"

record overlapPair =
  previous :: dateRange
  current :: dateRange

record overlapResult =
  overlap :: bool
  ranges :: "overlapPair list"

definition previousEnd :: "int \<Rightarrow> period \<Rightarrow> dateRange \<Rightarrow> date" where
  "previousEnd tz p prev =
     (let e0 = endDate prev;
          e1 = (if dateInterval prev > 1 \<and> p = Daily
                then e0 + (dateInterval prev * 86400000 - 86400000) else e0)
      in if p = Monthly then setMonth tz e1 (getMonth tz e1 + (dateInterval prev - 1))
         else if p = Yearly
         then setFullYear tz e1 (getFullYear tz e1 + (dateInterval prev - 1))
         else e1)"

fun overlapReduce :: "int \<Rightarrow> period \<Rightarrow> overlapResult \<Rightarrow> dateRange list \<Rightarrow> overlapResult" where
  "overlapReduce tz p result (prev # cur # rest) =
     overlapReduce tz p
       (if previousEnd tz p prev \<ge> startDate cur
        then result\<lparr>overlap := True,
                    ranges := ranges result @ [\<lparr>previous = prev, current = cur\<rparr>]\<rparr>
        else result)
       (cur # rest)"
| "overlapReduce tz p result rest = result"

definition dateOverlap :: "int \<Rightarrow> period \<Rightarrow> dateRange list \<Rightarrow> overlapResult \<times> dateRange list" where
  "dateOverlap tz p rangeArray =
     (let sortedRanges = sortWith compareRanges rangeArray
      in (overlapReduce tz p \<lparr>overlap = False, ranges = []\<rparr> sortedRanges, sortedRanges))"

text \<open>
  The detector as the spec words it: the ranges sorted by start date, and every adjacent
  pair whose prior range's end, extended by \<open>dateInterval - 1\<close> period units (days,
  whole months, whole years), is not before the next range's start. For a subdaily
  period the end is taken as declared.
\<close>

definition effectiveEnd :: "int \<Rightarrow> period \<Rightarrow> dateRange \<Rightarrow> date" where
  "effectiveEnd tz p r =
     (case p of
        Daily \<Rightarrow> endDate r + (dateInterval r - 1) * msPerDay
      | Monthly \<Rightarrow> setMonth tz (endDate r) (getMonth tz (endDate r) + (dateInterval r - 1))
      | Yearly \<Rightarrow> setFullYear tz (endDate r) (getFullYear tz (endDate r) + (dateInterval r - 1))
      | Subdaily \<Rightarrow> endDate r)"

definition overlappingPairs :: "int \<Rightarrow> period \<Rightarrow> dateRange list \<Rightarrow> (dateRange \<times> dateRange) list" where
  "overlappingPairs tz p rs =
     filter (\<lambda>(a, b). startDate b \<le> effectiveEnd tz p a) (zip rs (tl rs))"

definition detectOverlap :: "int \<Rightarrow> period \<Rightarrow> dateRange list \<Rightarrow> overlapResult" where
  "detectOverlap tz p rs =
     (let pairs = overlappingPairs tz p (sort_key startDate rs)
      in \<lparr>overlap = (pairs \<noteq> []),
          ranges = map (\<lambda>(a, b). \<lparr>previous = a, current = b\<rparr>) pairs\<rparr>)"

lemma insertWith_compareRanges:
  "insertWith compareRanges x ys = insort_key startDate x ys"
  by (induction ys) (auto simp: compareRanges_def Let_def)

lemma sortWith_compareRanges: "sortWith compareRanges rs = sort_key startDate rs"
  by (induction rs) (simp_all add: sortWith_def insertWith_compareRanges)

lemma previousEnd_effectiveEnd:
  "1 \<le> dateInterval r \<Longrightarrow> previousEnd tz p r = effectiveEnd tz p r"
  by (cases p) (auto simp: previousEnd_def effectiveEnd_def Let_def msPerDay_def algebra_simps)

lemma overlapReduce_pairs:
  assumes "\<forall>r\<in>set rs. 1 \<le> dateInterval r"
  shows "overlapReduce tz p acc rs =
     \<lparr>overlap = (overlap acc \<or> overlappingPairs tz p rs \<noteq> []),
      ranges = ranges acc @ map (\<lambda>(a, b). \<lparr>previous = a, current = b\<rparr>) (overlappingPairs tz p rs)\<rparr>"
  using assms
  by (induction tz p acc rs rule: overlapReduce.induct)
     (simp_all add: overlappingPairs_def previousEnd_effectiveEnd)

text \<open>The ranges of the examples.\<close>

definition overlapRanges :: "dateRange list" where
  "overlapRanges =
     [\<lparr>startDate = utcDate 2020 1 1, endDate = utcDate 2020 1 10, dateInterval = 1\<rparr>,
      \<lparr>startDate = utcDate 2020 1 5, endDate = utcDate 2020 1 20, dateInterval = 1\<rparr>]"

definition monthlyRanges :: "dateRange list" where
  "monthlyRanges =
     [\<lparr>startDate = utcDate 2020 1 1, endDate = utcDate 2020 3 1, dateInterval = 3\<rparr>,
      \<lparr>startDate = utcDate 2020 4 15, endDate = utcDate 2020 12 1, dateInterval = 3\<rparr>]"

definition subdailyRanges :: "dateRange list" where
  "subdailyRanges =
     [\<lparr>startDate = utcDateTime 2020 1 1 12 0, endDate = utcDateTime 2020 1 1 13 0,
       dateInterval = 10\<rparr>,
      \<lparr>startDate = utcDateTime 2020 1 1 13 5, endDate = utcDateTime 2020 1 1 14 0,
       dateInterval = 10\<rparr>]"

lemma overlap_example:
  "fst (dateOverlap tz Daily overlapRanges) =
     \<lparr>overlap = True,
      ranges = [\<lparr>previous = overlapRanges ! 0, current = overlapRanges ! 1\<rparr>]\<rparr>"
proof -
  have d: "utcDate 2020 1 1 = 1577836800000" "utcDate 2020 1 5 = 1578182400000"
    "utcDate 2020 1 10 = 1578614400000" "utcDate 2020 1 20 = 1579478400000"
    by code_simp+
  show ?thesis
    by (simp add: dateOverlap_def sortWith_def compareRanges_def overlapRanges_def d
        previousEnd_def Let_def)
qed

text \<open>
  Claim C5, as the code has it. For ranges of positive intervals, \<open>dateOverlap\<close> sorts the
  ranges by start date (stable) and reports exactly the adjacent pairs whose prior
  range's end, extended by \<open>dateInterval - 1\<close> days (daily), months (monthly) or years
  (yearly) and not extended for a subdaily period, is at or after the next range's
  start: every such pair, in order, and \<open>overlap\<close> is true when there is one. For the
  daily ranges 2020-01-01 to 2020-01-10 and 2020-01-05 to 2020-01-20 it reports the
  overlap with that pair.
\<close>

theorem dateOverlap_adjacent_pairs:
  assumes "\<forall>r\<in>set rs. 1 \<le> dateInterval r"
  shows "fst (dateOverlap tz p rs) = detectOverlap tz p rs
       \<and> fst (dateOverlap tz Daily overlapRanges) =
           \<lparr>overlap = True,
            ranges = [\<lparr>previous = overlapRanges ! 0, current = overlapRanges ! 1\<rparr>]\<rparr>"
proof -
  have "\<forall>r\<in>set (sort_key startDate rs). 1 \<le> dateInterval r"
    using assms by simp
  then have "fst (dateOverlap tz p rs) = detectOverlap tz p rs"
    by (simp add: dateOverlap_def detectOverlap_def sortWith_compareRanges overlapReduce_pairs
        Let_def)
  then show ?thesis
    using overlap_example by blast
qed

theorem dateOverlap_adjacent_pairs_witness:
  "fst (dateOverlap 0 Monthly monthlyRanges) = detectOverlap 0 Monthly monthlyRanges
   \<and> overlap (detectOverlap 0 Monthly monthlyRanges)
   \<and> endDate (monthlyRanges ! 0) < startDate (monthlyRanges ! 1)"
proof -
  have a: "\<forall>r\<in>set monthlyRanges. 1 \<le> dateInterval r"
    by (simp add: monthlyRanges_def)
  have d: "utcDate 2020 1 1 = 1577836800000" "utcDate 2020 3 1 = 1583020800000"
    "utcDate 2020 4 15 = 1586908800000"
    by code_simp+
  have e: "getMonth 0 1583020800000 = 2" "setMonth 0 1583020800000 4 = 1588291200000"
    by code_simp+
  have c: "overlap (detectOverlap 0 Monthly monthlyRanges)"
    by (simp add: detectOverlap_def overlappingPairs_def monthlyRanges_def effectiveEnd_def d e)
  have f: "endDate (monthlyRanges ! 0) < startDate (monthlyRanges ! 1)"
    by (simp add: monthlyRanges_def d)
  show ?thesis
    using dateOverlap_adjacent_pairs [OF a, of 0 Monthly] c f by simp
qed

text \<open>
  The claim C5 as the spec states it, for every period, fails for a subdaily period: the
  ranges 12:00 to 13:00 and 13:05 to 14:00 of interval 10 (minutes) are not reported,
  though the first end extended by 9 minutes is after the second start.
\<close>

theorem dateOverlap_subdaily_counterexample:
  "\<not> overlap (fst (dateOverlap 0 Subdaily subdailyRanges))
   \<and> startDate (subdailyRanges ! 1)
       \<le> endDate (subdailyRanges ! 0) + (dateInterval (subdailyRanges ! 0) - 1) * msPerMinute"
  by code_simp

text \<open>
  Claim C9, as the code has it. \<open>dateOverlap\<close> sorts the caller's array: after the call it
  holds the same ranges, unchanged, in the order of their start dates (ranges of equal
  start date in their former order); it is in its former order when that was sorted by
  start date.
\<close>

theorem dateOverlap_sorts_in_place:
  "snd (dateOverlap tz p rs) = sort_key startDate rs
   \<and> mset (snd (dateOverlap tz p rs)) = mset rs
   \<and> (sorted (map startDate rs) \<longrightarrow> snd (dateOverlap tz p rs) = rs)"
  by (simp add: dateOverlap_def Let_def sortWith_compareRanges sort_key_id_if_sorted)

theorem dateOverlap_sorts_in_place_witness:
  "sorted (map startDate overlapRanges) \<and> snd (dateOverlap 0 Daily overlapRanges) = overlapRanges"
proof -
  have "sorted (map startDate overlapRanges)"
    by code_simp
  then show ?thesis
    using dateOverlap_sorts_in_place [of 0 Daily overlapRanges] by blast
qed

text \<open>
  The claim C9 as the spec states it fails: called on the two daily ranges with the
  later one first, \<open>dateOverlap\<close> leaves the caller's array in the other order.
\<close>

theorem dateOverlap_reorders_counterexample:
  "snd (dateOverlap 0 Daily (rev overlapRanges)) = overlapRanges
   \<and> rev overlapRanges \<noteq> overlapRanges"
  by code_simp


section \<open>The adjustment of ongoing ranges\<close>

subsection \<open>The calendar\<close>

text \<open>
  \<open>YearFromDay\<close> is the year of a day: the only year whose first day is not after it and
  whose successor's first day is. The fields of a date are within their ranges, and a
  date moved to the year \<open>y\<close> by \<^verbatim>\<open>setUTCFullYear\<close> is in the year \<open>y\<close>.
\<close>

lemma DaysInYear_bounds: "365 \<le> DaysInYear y" "DaysInYear y \<le> 366"
  by (simp_all add: DaysInYear_def)

lemma DayFromYear_less_Suc: "DayFromYear y < DayFromYear (y + 1)"
  using DayFromYear_step [of y] DaysInYear_bounds(1) [of y] by simp

lemma DayFromYear_mono_aux: "DayFromYear y \<le> DayFromYear (y + int n)"
proof (induction n)
  case 0
  then show ?case by simp
next
  case (Suc n)
  have "DayFromYear (y + int n) < DayFromYear (y + int n + 1)"
    by (rule DayFromYear_less_Suc)
  moreover have "y + int (Suc n) = y + int n + 1" by simp
  ultimately show ?case using Suc by (simp only: ; simp?)
qed

lemma DayFromYear_mono: "y \<le> z \<Longrightarrow> DayFromYear y \<le> DayFromYear z"
  using DayFromYear_mono_aux [of y "nat (z - y)"] by simp

lemma DayFromYear_less_imp: "DayFromYear y < DayFromYear z \<Longrightarrow> y < z"
  using DayFromYear_mono [of z y] by (cases "y < z") simp_all

lemma DayFromYear_1970: "DayFromYear 1970 = 0"
  by (simp add: DayFromYear_def)

lemma DayFromYear_lower: "DayFromYear (1970 + int n) \<ge> 365 * int n"
proof (induction n)
  case 0
  then show ?case by (simp add: DayFromYear_1970)
next
  case (Suc n)
  have "DayFromYear (1970 + int n + 1) = DayFromYear (1970 + int n) + DaysInYear (1970 + int n)"
    by (rule DayFromYear_step)
  moreover have "1970 + int (Suc n) = 1970 + int n + 1" by simp
  ultimately show ?case
    using Suc DaysInYear_bounds(1) [of "1970 + int n"] by (simp only: ; simp?)
qed

lemma DayFromYear_lower_neg: "DayFromYear (1970 - int n) \<ge> - 366 * int n"
proof (induction n)
  case 0
  then show ?case by (simp add: DayFromYear_1970)
next
  case (Suc n)
  have "DayFromYear (1970 - int (Suc n) + 1) =
        DayFromYear (1970 - int (Suc n)) + DaysInYear (1970 - int (Suc n))"
    by (rule DayFromYear_step)
  moreover have "1970 - int (Suc n) + 1 = 1970 - int n" by simp
  ultimately show ?case
    using Suc DaysInYear_bounds(2) [of "1970 - int (Suc n)"] by (simp only: ; simp?)
qed

lemma yearDown_le: "DayFromYear (yearDown y d) \<le> d"
  by (induction y d rule: yearDown.induct) (simp split: if_splits)

lemma yearDown_upper: "d < DayFromYear (y + 1) \<Longrightarrow> d < DayFromYear (yearDown y d + 1)"
proof (induction y d rule: yearDown.induct)
  case (1 y d)
  show ?case
  proof (cases "DayFromYear y \<le> d")
    case True
    with "1.prems" show ?thesis by simp
  next
    case False
    then have "d < DayFromYear (y - 1 + 1)" by simp
    with "1.IH" False show ?thesis by simp
  qed
qed


lemma less_next_multiple_aux: "(d::int) = n * q + r \<Longrightarrow> r < n \<Longrightarrow> d < n * (q + 1)"
  by (simp add: algebra_simps)

lemma less_next_multiple:
  fixes d n :: int
  assumes "0 < n"
  shows "d < n * (d div n + 1)"
proof -
  have "d mod n < n" using assms by simp
  moreover have "d = n * (d div n) + d mod n" by simp
  ultimately show ?thesis by (rule less_next_multiple_aux [rotated])
qed

lemma YearFromDay_start:
  "d < DayFromYear (1970 + (if 0 \<le> d then d div 365 else d div 366) + 1)"
proof (cases "0 \<le> d")
  case True
  define q where "q = d div 365"
  have q: "0 \<le> q" using True by (simp add: q_def pos_imp_zdiv_nonneg_iff)
  have d: "d < 365 * (q + 1)"
    unfolding q_def by (rule less_next_multiple) simp
  define n where "n = nat (q + 1)"
  have n: "int n = q + 1" using q by (simp add: n_def)
  have "365 * int n \<le> DayFromYear (1970 + int n)"
    by (rule DayFromYear_lower)
  then have "365 * (q + 1) \<le> DayFromYear (1970 + q + 1)"
    unfolding n by (simp add: algebra_simps)
  with d True show ?thesis by (simp add: q_def)
next
  case False
  define q where "q = d div 366"
  have q: "q < 0" using False by (simp add: q_def neg_imp_zdiv_neg_iff)
  have d: "d < 366 * (q + 1)"
    unfolding q_def by (rule less_next_multiple) simp
  define n where "n = nat (- (q + 1))"
  have n: "int n = - (q + 1)" using q by (simp add: n_def)
  have "- 366 * int n \<le> DayFromYear (1970 - int n)"
    by (rule DayFromYear_lower_neg)
  then have "366 * (q + 1) \<le> DayFromYear (1970 + q + 1)"
    unfolding n by (simp add: algebra_simps)
  with d False show ?thesis by (simp add: q_def)
qed

lemma YearFromDay_correct:
  "DayFromYear (YearFromDay d) \<le> d" "d < DayFromYear (YearFromDay d + 1)"
  unfolding YearFromDay_def
  by (rule yearDown_le, rule yearDown_upper, rule YearFromDay_start)

lemma YearFromDay_unique:
  assumes "DayFromYear y \<le> d" and "d < DayFromYear (y + 1)"
  shows "YearFromDay d = y"
proof -
  have "DayFromYear (YearFromDay d) < DayFromYear (y + 1)"
    using YearFromDay_correct(1) [of d] assms(2) by simp
  then have a: "YearFromDay d < y + 1" by (rule DayFromYear_less_imp)
  have "DayFromYear y < DayFromYear (YearFromDay d + 1)"
    using YearFromDay_correct(2) [of d] assms(1) by simp
  then have "y < YearFromDay d + 1" by (rule DayFromYear_less_imp)
  with a show ?thesis by simp
qed

lemma DayWithinYear_bounds:
  "0 \<le> DayWithinYear t" "DayWithinYear t < 365 + InLeapYear t"
proof -
  show "0 \<le> DayWithinYear t"
    using YearFromDay_correct(1) [of "Day t"] by (simp add: DayWithinYear_def YearFromTime_def)
  have "Day t < DayFromYear (YearFromTime t) + DaysInYear (YearFromTime t)"
    using YearFromDay_correct(2) [of "Day t"] DayFromYear_step [of "YearFromDay (Day t)"]
    by (simp add: YearFromTime_def)
  then show "DayWithinYear t < 365 + InLeapYear t"
    by (simp add: DayWithinYear_def InLeapYear_def DaysInYear_def split: if_splits)
qed

lemma InLeapYear_cases: "InLeapYear t = 0 \<or> InLeapYear t = 1"
  by (simp add: InLeapYear_def)

lemma MonthFromTime_bounds: "0 \<le> MonthFromTime t" "MonthFromTime t \<le> 11"
  by (simp_all add: MonthFromTime_def monthOfDay_def)

lemma monthOfDay_date:
  assumes "l = 0 \<or> l = 1" and "0 \<le> d" and "d < 365 + l"
  shows "1 \<le> d - daysBeforeMonth l (monthOfDay l d) + 1"
    and "d - daysBeforeMonth l (monthOfDay l d) + 1 \<le> 31"
  using assms by (auto simp: monthOfDay_def daysBeforeMonth_def)

lemma DateFromTime_bounds: "1 \<le> DateFromTime t" "DateFromTime t \<le> 31"
  unfolding DateFromTime_def MonthFromTime_def
  using monthOfDay_date [OF InLeapYear_cases DayWithinYear_bounds, of t] by simp_all

text \<open>
  Modelled from the spec: \<^verbatim>\<open>util.toISOStringSeconds\<close> is not among the sources. By its
  name and its use it writes a date as an ISO string to the second; the adjusted ranges
  hold that string, and the model the instant it denotes, the date without its
  milliseconds.
\<close>

definition toISOStringSeconds :: "date \<Rightarrow> date" where
  "toISOStringSeconds t = t - t mod 1000"

text \<open>\<^verbatim>\<open>date.setUTCFullYear(year)\<close> keeps the month, the day and the time of the day.\<close>

definition setUTCFullYear :: "date \<Rightarrow> int \<Rightarrow> date" where
  "setUTCFullYear t y =
     MakeDate (MakeDay y (MonthFromTime t) (DateFromTime t)) (TimeWithinDay t)"

lemma TimeWithinDay_bounds: "0 \<le> TimeWithinDay t" "TimeWithinDay t < msPerDay"
  by (simp_all add: TimeWithinDay_def msPerDay_def)

lemma Day_MakeDate:
  assumes "0 \<le> time" and "time < msPerDay"
  shows "Day (MakeDate day time) = day"
proof -
  have "(day * msPerDay + time) div msPerDay = day + time div msPerDay"
    by (simp add: msPerDay_def)
  moreover have "time div msPerDay = 0"
    using assms by (simp add: div_pos_pos_trivial)
  ultimately show ?thesis by (simp add: Day_def MakeDate_def)
qed

lemma Day_toISOStringSeconds: "Day (toISOStringSeconds t) = Day t"
proof -
  have "t - t mod 1000 = 1000 * (t div 1000)"
    by (simp add: minus_mod_eq_mult_div)
  moreover have "(1000 * (t div 1000)) div (1000 * 86400) = (t div 1000) div 86400"
    by simp
  moreover have "t div (1000 * 86400) = (t div 1000) div 86400"
    by (rule zdiv_zmult2_eq) simp
  ultimately show ?thesis
    by (simp add: Day_def toISOStringSeconds_def msPerDay_def)
qed

lemma daysBeforeMonth_fit:
  assumes "l = 0 \<or> l = 1" and "0 \<le> m" and "m \<le> 11" and "1 \<le> dt" and "dt \<le> 31"
  shows "0 \<le> daysBeforeMonth l m + dt - 1" and "daysBeforeMonth l m + dt - 1 < 365 + l"
proof -
  have "m = 0 \<or> m = 1 \<or> m = 2 \<or> m = 3 \<or> m = 4 \<or> m = 5 \<or> m = 6 \<or> m = 7 \<or> m = 8 \<or> m = 9
        \<or> m = 10 \<or> m = 11"
    using assms(2,3) by arith
  then show "0 \<le> daysBeforeMonth l m + dt - 1" and "daysBeforeMonth l m + dt - 1 < 365 + l"
    using assms(1,4,5) by (auto simp: daysBeforeMonth_def)
qed

lemma YearFromDay_MakeDay:
  assumes "0 \<le> m" and "m \<le> 11" and "1 \<le> dt" and "dt \<le> 31"
  shows "YearFromDay (MakeDay y m dt) = y"
proof -
  define l :: int where "l = (if leapYear y then 1 else 0)"
  have l: "l = 0 \<or> l = 1" by (simp add: l_def)
  have m: "m div 12 = 0" "m mod 12 = m" using assms(1,2) by simp_all
  have md: "MakeDay y m dt = DayFromYear y + (daysBeforeMonth l m + dt - 1)"
    by (simp add: MakeDay_def m l_def)
  have "DayFromYear (y + 1) = DayFromYear y + (365 + l)"
    by (simp add: DayFromYear_step DaysInYear_def l_def)
  then show ?thesis
    using daysBeforeMonth_fit [OF l assms] by (intro YearFromDay_unique) (simp_all add: md)
qed

lemma YearFromTime_setUTCFullYear: "YearFromTime (setUTCFullYear t y) = y"
  unfolding YearFromTime_def setUTCFullYear_def
  by (simp add: Day_MakeDate TimeWithinDay_bounds YearFromDay_MakeDay MonthFromTime_bounds
      DateFromTime_bounds)

lemma YearFromTime_toISOStringSeconds:
  "YearFromTime (toISOStringSeconds t) = YearFromTime t"
  by (simp add: YearFromTime_def Day_toISOStringSeconds)

subsection \<open>\<^verbatim>\<open>adjustActiveDateRanges\<close>\<close>

text \<open>
  \<open>adjustAt\<close> is one iteration of the loop of \<^verbatim>\<open>applyDateRangeAdjustment\<close> over
  \<^verbatim>\<open>dateRangesModified\<close>, at index \<open>i\<close>: \<^verbatim>\<open>splice(i, 1, range)\<close> replaces the range at \<open>i\<close>
  and \<^verbatim>\<open>push\<close> appends one. \<open>endOfYear2021\<close> is the source's
  \<^verbatim>\<open>new Date('2021-12-31T00:00:00.000Z')\<close>.
\<close>

definition endOfYear2021 :: date where
  "endOfYear2021 = utcDate 2021 12 31"

definition adjustAt :: "date \<Rightarrow> dateRange list \<Rightarrow> nat \<Rightarrow> dateRange list" where
  "adjustAt appNow dateRangesModified i =
     (let dateRange = dateRangesModified ! i;
          appNowYear = YearFromTime appNow;
          dateIntervalNum = dateInterval dateRange
      in if i = length dateRangesModified - 1 \<and> dateIntervalNum > 1 then
           (let startDateYear = YearFromTime (startDate dateRange);
                spliced =
                  (if startDateYear = appNowYear
                   then dateRangesModified
                          [i := \<lparr>startDate = startDate dateRange,
                                 endDate = toISOStringSeconds appNow,
                                 dateInterval = dateInterval dateRange\<rparr>]
                   else dateRangesModified)
            in if startDateYear < appNowYear then
                 (let dynamicStartDate =
                        setUTCFullYear (startDate dateRange) (startDateYear + 1);
                      endDateYear = YearFromTime (endDate dateRange);
                      extendedEnd = setUTCFullYear (endDate dateRange) (endDateYear + 1);
                      dynamicEndDate = (if extendedEnd < appNow then extendedEnd else appNow);
                      capped =
                        (if endDateYear < appNowYear
                         then spliced
                                [i := \<lparr>startDate = startDate dateRange,
                                       endDate = toISOStringSeconds
                                         (setUTCFullYear endOfYear2021 endDateYear),
                                       dateInterval = dateInterval dateRange\<rparr>]
                         else spliced)
                  in if dynamicStartDate < appNow
                     then capped @ [\<lparr>startDate = toISOStringSeconds dynamicStartDate,
                                      endDate = toISOStringSeconds dynamicEndDate,
                                      dateInterval = dateInterval dateRange\<rparr>]
                     else capped)
               else spliced)
         else dateRangesModified)"

lemma adjustAt_length:
  "length (adjustAt appNow arr i) = length arr \<or> length (adjustAt appNow arr i) = length arr + 1"
  by (simp add: adjustAt_def Let_def)

lemma adjustAt_not_last: "i \<noteq> length arr - 1 \<Longrightarrow> adjustAt appNow arr i = arr"
  by (simp add: adjustAt_def Let_def)

text \<open>When the iteration at the last index appends a range, that range starts in a later year.\<close>

lemma adjustAt_pushed:
  assumes "i < length arr" and "length (adjustAt appNow arr i) \<noteq> length arr"
  shows "YearFromTime (startDate (arr ! i)) < YearFromTime appNow"
    and "YearFromTime (startDate (last (adjustAt appNow arr i))) =
         YearFromTime (startDate (arr ! i)) + 1"
    and "i = length arr - 1"
  using assms
  by (auto simp: adjustAt_def Let_def YearFromTime_toISOStringSeconds
      YearFromTime_setUTCFullYear split: if_splits)

text \<open>
  The loop reads the length of the array at every iteration, and the array grows while
  it runs. It ends: an iteration appends a range only at the last index, and the
  appended range starts in the next year, up to the year of \<open>appNow\<close>.
\<close>

definition adjustMeasure :: "date \<times> dateRange list \<times> nat \<Rightarrow> nat" where
  "adjustMeasure = (\<lambda>(appNow, arr, i).
     if i < length arr
     then nat (YearFromTime appNow - YearFromTime (startDate (last arr))) + 1 else 0)"

function adjustLoop :: "date \<Rightarrow> dateRange list \<Rightarrow> nat \<Rightarrow> dateRange list" where
  "adjustLoop appNow dateRangesModified i =
     (if i < length dateRangesModified
      then adjustLoop appNow (adjustAt appNow dateRangesModified i) (i + 1)
      else dateRangesModified)"
  by pat_completeness auto


lemma adjustLoop_decreases:
  assumes "i < length arr"
  shows "((appNow, adjustAt appNow arr i, i + 1), (appNow, arr, i))
           \<in> measures [adjustMeasure, \<lambda>(appNow, arr, i). length arr - i]"
proof (cases "length (adjustAt appNow arr i) = length arr")
  case True
  show ?thesis
  proof (cases "i = length arr - 1")
    case True
    with \<open>length (adjustAt appNow arr i) = length arr\<close> assms show ?thesis
      by (simp add: adjustMeasure_def)
  next
    case False
    with assms show ?thesis
      by (auto simp add: adjustAt_not_last adjustMeasure_def)
  qed
next
  case False
  note p = adjustAt_pushed [OF assms False, of]
  have len: "length (adjustAt appNow arr i) = length arr + 1"
    using adjustAt_length [of appNow arr i] False by simp
  have "arr \<noteq> []" using assms by auto
  then have "last arr = arr ! i"
    using p(3) by (simp add: last_conv_nth)
  with p(1,2) len assms show ?thesis
    by (simp add: adjustMeasure_def)
qed

termination adjustLoop
  by (relation "measures [adjustMeasure, \<lambda>(appNow, arr, i). length arr - i]")
     (simp, rule adjustLoop_decreases)

declare adjustLoop.simps [simp del]

lemma YearFromTime_capped:
  "YearFromTime (toISOStringSeconds (setUTCFullYear endOfYear2021 y)) = y"
  by (simp add: YearFromTime_toISOStringSeconds YearFromTime_setUTCFullYear)

lemma adjustAt_small:
  "dateInterval (arr ! i) \<le> 1 \<Longrightarrow> adjustAt appNow arr i = arr"
  by (simp add: adjustAt_def Let_def)

lemma adjustAt_same_year:
  assumes "i = length arr - 1" and "1 < dateInterval (arr ! i)"
    and "YearFromTime (startDate (arr ! i)) = YearFromTime appNow"
  shows "adjustAt appNow arr i =
         arr[i := \<lparr>startDate = startDate (arr ! i), endDate = toISOStringSeconds appNow,
                    dateInterval = dateInterval (arr ! i)\<rparr>]"
  using assms by (simp add: adjustAt_def Let_def)

lemma adjustAt_later_year:
  assumes "YearFromTime appNow < YearFromTime (startDate (arr ! i))"
  shows "adjustAt appNow arr i = arr"
  using assms by (cases "i = length arr - 1") (simp_all add: adjustAt_def Let_def)

lemma adjustAt_earlier_year:
  assumes "i = length arr - 1" and "1 < dateInterval (arr ! i)"
    and "YearFromTime (startDate (arr ! i)) < YearFromTime appNow"
    and "\<not> setUTCFullYear (startDate (arr ! i)) (YearFromTime (startDate (arr ! i)) + 1) < appNow"
  shows "adjustAt appNow arr i =
     (if YearFromTime (endDate (arr ! i)) < YearFromTime appNow
      then arr[i := \<lparr>startDate = startDate (arr ! i),
                      endDate = toISOStringSeconds
                        (setUTCFullYear endOfYear2021 (YearFromTime (endDate (arr ! i)))),
                      dateInterval = dateInterval (arr ! i)\<rparr>]
      else arr)"
  using assms by (simp add: adjustAt_def Let_def)

lemma adjustAt_push:
  assumes "i = length arr - 1" and "1 < dateInterval (arr ! i)"
    and "YearFromTime (startDate (arr ! i)) < YearFromTime appNow"
    and "setUTCFullYear (startDate (arr ! i)) (YearFromTime (startDate (arr ! i)) + 1) < appNow"
  shows "length (adjustAt appNow arr i) = length arr + 1"
  using assms by (simp add: adjustAt_def Let_def)


lemma adjustAt_settled:
  assumes i: "i = length arr - 1" and lt: "i < length arr"
    and len: "length (adjustAt appNow arr i) = length arr"
  shows "adjustAt appNow (adjustAt appNow arr i) i = adjustAt appNow arr i"
proof -
  let ?r = "arr ! i"
  let ?sy = "YearFromTime (startDate ?r)" and ?ny = "YearFromTime appNow"
  consider (small) "dateInterval ?r \<le> 1"
    | (same) "1 < dateInterval ?r" "?sy = ?ny"
    | (later) "1 < dateInterval ?r" "?ny < ?sy"
    | (earlier) "1 < dateInterval ?r" "?sy < ?ny"
    by linarith
  then show ?thesis
  proof cases
    case small
    then show ?thesis by (simp add: adjustAt_small)
  next
    case same
    let ?arr' = "arr[i := \<lparr>startDate = startDate ?r, endDate = toISOStringSeconds appNow,
                          dateInterval = dateInterval ?r\<rparr>]"
    have a: "adjustAt appNow arr i = ?arr'"
      using i same by (rule adjustAt_same_year)
    have "adjustAt appNow ?arr' i = ?arr'"
      using i lt same by (subst adjustAt_same_year) simp_all
    with a show ?thesis by simp
  next
    case later
    then show ?thesis by (simp add: adjustAt_later_year)
  next
    case earlier
    have nopush: "\<not> setUTCFullYear (startDate ?r) (?sy + 1) < appNow"
      using adjustAt_push [OF i earlier] len by auto
    show ?thesis
    proof (cases "YearFromTime (endDate ?r) < ?ny")
      case True
      let ?arr' = "arr[i := \<lparr>startDate = startDate ?r,
                      endDate = toISOStringSeconds
                        (setUTCFullYear endOfYear2021 (YearFromTime (endDate ?r))),
                      dateInterval = dateInterval ?r\<rparr>]"
      have a: "adjustAt appNow arr i = ?arr'"
        using adjustAt_earlier_year [OF i earlier nopush] True by simp
      have "adjustAt appNow ?arr' i = ?arr'"
        using i lt earlier nopush True
        by (subst adjustAt_earlier_year) (simp_all add: YearFromTime_capped)
      with a show ?thesis by simp
    next
      case False
      then have "adjustAt appNow arr i = arr"
        using adjustAt_earlier_year [OF i earlier nopush] by simp
      then show ?thesis by simp
    qed
  qed
qed

lemma adjustLoop_settled:
  assumes "i < length arr"
  shows "adjustAt appNow (adjustLoop appNow arr i) (length (adjustLoop appNow arr i) - 1)
         = adjustLoop appNow arr i"
  using assms
proof (induction appNow arr i rule: adjustLoop.induct)
  case (1 appNow arr i)
  let ?arr' = "adjustAt appNow arr i"
  have step: "adjustLoop appNow arr i = adjustLoop appNow ?arr' (i + 1)"
    using "1.prems" by (subst adjustLoop.simps) simp
  show ?case
  proof (cases "i + 1 < length ?arr'")
    case True
    with "1.IH" "1.prems" show ?thesis
      unfolding step by simp
  next
    case False
    with adjustAt_length [of appNow arr i] "1.prems"
    have len: "length ?arr' = length arr" and i: "i = length arr - 1"
      by auto
    have "adjustLoop appNow ?arr' (i + 1) = ?arr'"
      using False by (subst adjustLoop.simps) simp
    with adjustAt_settled [OF i "1.prems" len] len i show ?thesis
      unfolding step by simp
  qed
qed

lemma adjustLoop_fixed:
  assumes "adjustAt appNow arr (length arr - 1) = arr"
  shows "adjustLoop appNow arr i = arr"
  using assms
proof (induction appNow arr i rule: adjustLoop.induct)
  case (1 appNow arr i)
  show ?case
  proof (cases "i < length arr")
    case True
    have "adjustAt appNow arr i = arr"
      using "1.prems" adjustAt_not_last [of i arr appNow] by (cases "i = length arr - 1") simp_all
    with "1.IH" [OF True] "1.prems" True show ?thesis
      by (subst adjustLoop.simps) simp
  next
    case False
    then show ?thesis by (subst adjustLoop.simps) simp
  qed
qed

lemma adjustLoop_idempotent:
  "adjustLoop appNow (adjustLoop appNow arr 0) 0 = adjustLoop appNow arr 0"
proof (cases "arr = []")
  case True
  have "adjustLoop appNow [] 0 = []"
    by (subst adjustLoop.simps) simp
  with True show ?thesis by simp
next
  case False
  then have "0 < length arr" by simp
  then show ?thesis
    by (intro adjustLoop_fixed adjustLoop_settled)
qed

text \<open>
  \<^verbatim>\<open>Object.values(layers).forEach(applyDateRangeAdjustment)\<close>: the catalog is the list
  of its layers, and the pass returns the layers as it leaves them.
\<close>

definition applyDateRangeAdjustment :: "date \<Rightarrow> layer \<Rightarrow> layer" where
  "applyDateRangeAdjustment appNow layer =
     (case dateRanges layer of
        None \<Rightarrow> layer
      | Some ranges0 \<Rightarrow>
          if \<not> ongoing layer \<or> period layer = Subdaily then layer
          else layer\<lparr>dateRanges := Some (adjustLoop appNow ranges0 0)\<rparr>)"

definition adjustActiveDateRanges :: "layer list \<Rightarrow> date \<Rightarrow> layer list" where
  "adjustActiveDateRanges layers appNow = map (applyDateRangeAdjustment appNow) layers"

lemma applyDateRangeAdjustment_idempotent:
  "applyDateRangeAdjustment appNow (applyDateRangeAdjustment appNow layer) =
   applyDateRangeAdjustment appNow layer"
  by (simp add: applyDateRangeAdjustment_def adjustLoop_idempotent split: option.splits)

text \<open>
  Claim C6. For every list of layers and every \<open>appNow\<close>, the adjustment pass applied
  twice with the same \<open>appNow\<close> leaves the layers, and so their date ranges, as the pass
  applied once leaves them. (The pass is a total function: its loop ends.)
\<close>

theorem adjustActiveDateRanges_idempotent:
  "adjustActiveDateRanges (adjustActiveDateRanges layers appNow) appNow =
   adjustActiveDateRanges layers appNow"
  by (simp add: adjustActiveDateRanges_def applyDateRangeAdjustment_idempotent)

text \<open>
  An example of the pass: a range of 2019 with interval 8, adjusted in March 2021, is
  capped at the end of 2019 and followed by a range for 2020 and one for 2021 up to
  \<open>appNow\<close>.
\<close>

definition ongoingExample :: layer where
  "ongoingExample =
     \<lparr>period = Daily,
      dateRanges = Some [\<lparr>startDate = utcDate 2019 1 1, endDate = utcDate 2019 6 1,
                          dateInterval = 8\<rparr>],
      futureTime = None, ongoing = True\<rparr>"

lemma adjust_example:
  "dateRanges (applyDateRangeAdjustment (utcDateTime 2021 3 1 10 30) ongoingExample) =
     Some [\<lparr>startDate = utcDate 2019 1 1, endDate = utcDate 2019 12 31, dateInterval = 8\<rparr>,
           \<lparr>startDate = utcDate 2020 1 1, endDate = utcDate 2020 12 31, dateInterval = 8\<rparr>,
           \<lparr>startDate = utcDate 2021 1 1, endDate = utcDateTime 2021 3 1 10 30,
            dateInterval = 8\<rparr>]"
  by code_simp

section \<open>The permalink codec\<close>

text \<open>
  A permalink is a URL component: strings are lists of ASCII characters. What the source
  prints or reports is kept as a list of effects, in the order of the calls.
\<close>

subsection \<open>Property lookup\<close>

text \<open>
  The catalog \<^verbatim>\<open>config.layers\<close> and the table \<^verbatim>\<open>config.redirects.layers\<close> are objects of
  the configuration, and \<^verbatim>\<open>object[key]\<close> looks the key up among the properties of the
  object itself and then among those every object inherits from \<^verbatim>\<open>Object.prototype\<close>:
  eleven built-in functions and, under \<^verbatim>\<open>__proto__\<close>, the prototype itself.
\<close>

definition objectPrototypeNames :: "string list" where
  "objectPrototypeNames =
     [''constructor'', ''hasOwnProperty'', ''isPrototypeOf'', ''propertyIsEnumerable'',
      ''toLocaleString'', ''toString'', ''valueOf'', ''__proto__'', ''__defineGetter__'',
      ''__defineSetter__'', ''__lookupGetter__'', ''__lookupSetter__'']"

datatype 'a found = Missing | Own 'a | FromPrototype string

definition getProperty :: "(string \<rightharpoonup> 'a) \<Rightarrow> string \<Rightarrow> 'a found" where
  "getProperty object key =
     (case object key of
        Some v \<Rightarrow> Own v
      | None \<Rightarrow> if key \<in> set objectPrototypeNames then FromPrototype key else Missing)"

text \<open>
  The variable \<^verbatim>\<open>id\<close> of the parsers holds a string, or, once
  \<^verbatim>\<open>config.redirects.layers[id] || id\<close> has found an inherited property, the value of that
  property: \<open>Inherited n\<close> is the value every object inherits under the name \<open>n\<close>.

  Used as a key or in a template literal, the value is converted to a string: a string is
  itself, \<^verbatim>\<open>Object.prototype\<close> is \<^verbatim>\<open>[object Object]\<close>, and a built-in function is its source
  text, which the implementation defines (the parameter \<open>nativeText\<close>, from the name of
  the property).
\<close>

datatype layerKey = Str string | Inherited string

definition keyText :: "(string \<Rightarrow> string) \<Rightarrow> layerKey \<Rightarrow> string" where
  "keyText nativeText k =
     (case k of
        Str s \<Rightarrow> s
      | Inherited n \<Rightarrow> if n = ''__proto__'' then ''[object Object]'' else nativeText n)"

datatype effect = Warn string | Log string | PushEvent layerKey

text \<open>The value of a parsed attribute: \<^verbatim>\<open>true\<close> for a bare key, else the text after \<^verbatim>\<open>=\<close>.\<close>

datatype attrValue = JTrue | JString string

record attribute =
  attrId :: string
  attrValue :: attrValue

record lstate =
  layerId :: layerKey
  attributes :: "attribute list"

text \<open>
  A number of the source: \<^verbatim>\<open>NaN\<close> or a real. \<^verbatim>\<open>parseFloat\<close> and \<^verbatim>\<open>Number\<close> on strings are
  taken as parameters (\<open>parseNum\<close>, \<open>toNum\<close>) of the functions that call them.
\<close>

datatype num = NaN | Num real

record layerSpec =
  hidden :: bool
  opacity :: num
  count :: "num option"
  bandCombo :: "string list option"
  custom :: "string list option"
  minValues :: "num option list option"
  squash :: "bool list option"
  maxValues :: "num option list option"
  disabled :: "string list option"

text \<open>\<^verbatim>\<open>str.split(sep)\<close> for a separator that matches single characters.\<close>

fun splitOn :: "(char \<Rightarrow> bool) \<Rightarrow> string \<Rightarrow> string list" where
  "splitOn sep [] = [[]]"
| "splitOn sep (c # cs) =
     (if sep c then [] # splitOn sep cs
      else (case splitOn sep cs of t # ts \<Rightarrow> (c # t) # ts | [] \<Rightarrow> [[c]]))"

text \<open>
  Modelled from the spec: \<^verbatim>\<open>util.clamp\<close> is not among the sources; the spec's attribute
  table has the opacity "clamp to [0,1]", and \<^verbatim>\<open>NaN\<close> stays \<^verbatim>\<open>NaN\<close> (the source tests for it
  after the call).
\<close>

definition clamp :: "num \<Rightarrow> real \<Rightarrow> real \<Rightarrow> num" where
  "clamp v lo hi = (case v of NaN \<Rightarrow> NaN | Num x \<Rightarrow> Num (max lo (min hi x)))"

text \<open>
  \<^verbatim>\<open>attr.value.split(';')\<close> throws a \<^verbatim>\<open>TypeError\<close> when the value is \<^verbatim>\<open>true\<close>, which has no
  method \<^verbatim>\<open>split\<close>. (\<^verbatim>\<open>util.toArray\<close> leaves the array of the split as it is.)
\<close>

definition splitValue :: "attrValue \<Rightarrow> error + string list" where
  "splitValue v = (case v of JTrue \<Rightarrow> Inl TypeError
                           | JString str \<Rightarrow> Inr (splitOn (\<lambda>c. c = CHR '';'') str))"

text \<open>The loop over the segments of a \<^verbatim>\<open>max\<close> or \<^verbatim>\<open>min\<close> value, with its warnings.\<close>

fun rangeValues :: "(string \<Rightarrow> num) \<Rightarrow> string \<Rightarrow> string list \<Rightarrow> effect list \<times> num option list" where
  "rangeValues parseNum what [] = ([], [])"
| "rangeValues parseNum what (v # vs) =
     (let (ws, xs) = rangeValues parseNum what vs
      in if v = [] then (ws, None # xs)
         else (case parseNum v of
                 NaN \<Rightarrow> (Warn (''Invalid '' @ what @ '' value: '' @ v) # ws, xs)
               | Num x \<Rightarrow> (ws, Some (Num x) # xs)))"

definition nonEmpty :: "'a list \<Rightarrow> 'a list option" where
  "nonEmpty xs = (if xs = [] then None else Some xs)"

text \<open>
  One step of the loop of \<^verbatim>\<open>getLayerSpec\<close> over the attributes: the tests of the source,
  in its order, on one attribute. The state is the record of the variables, which is
  also the result (a field that is not an array is left out of the source's result).
\<close>

definition specStep ::
  "(string \<Rightarrow> num) \<Rightarrow> (attrValue \<Rightarrow> num) \<Rightarrow> attribute \<Rightarrow> effect list \<times> layerSpec
     \<Rightarrow> error + effect list \<times> layerSpec" where
  "specStep parseNum toNum attr st =
     (let (ws, s) = st;
          s1 = (if attrId attr = ''hidden'' then s\<lparr>hidden := True\<rparr> else s);
          s2 = (if attrId attr = ''opacity''
                then s1\<lparr>opacity :=
                          (case clamp (case attrValue attr of JTrue \<Rightarrow> NaN
                                       | JString str \<Rightarrow> parseNum str) 0 1 of
                             NaN \<Rightarrow> Num 0 | Num x \<Rightarrow> Num x)\<rparr>
                else s1)
      in case (if attrId attr = ''disabled''
               then map_sum id (\<lambda>vs. s2\<lparr>disabled := Some vs\<rparr>) (splitValue (attrValue attr))
               else Inr s2) of
           Inl e \<Rightarrow> Inl e
         | Inr s3 \<Rightarrow>
            (let (w4, s4) =
                   (case attrValue attr of
                      JString str \<Rightarrow>
                        if attrId attr = ''max''
                        then (let (w, xs) = rangeValues parseNum ''max''
                                              (splitOn (\<lambda>c. c = CHR '';'') str)
                              in (w, s3\<lparr>maxValues := nonEmpty xs\<rparr>))
                        else ([], s3)
                    | JTrue \<Rightarrow> ([], s3));
                 (w5, s5) =
                   (case attrValue attr of
                      JString str \<Rightarrow>
                        if attrId attr = ''min''
                        then (let (w, xs) = rangeValues parseNum ''min''
                                              (splitOn (\<lambda>c. c = CHR '';'') str)
                              in (w, s4\<lparr>minValues := nonEmpty xs\<rparr>))
                        else ([], s4)
                    | JTrue \<Rightarrow> ([], s4));
                 s6 = (if attrId attr = ''squash''
                       then (case attrValue attr of
                               JTrue \<Rightarrow> s5\<lparr>squash := Some [True]\<rparr>
                             | JString str \<Rightarrow>
                                 s5\<lparr>squash := nonEmpty
                                      (map (\<lambda>v. v = ''true'')
                                         (splitOn (\<lambda>c. c = CHR '';'') str))\<rparr>)
                       else s5)
             in case (if attrId attr = ''bands''
                      then map_sum id (\<lambda>vs. s6\<lparr>bandCombo := Some vs\<rparr>)
                             (splitValue (attrValue attr))
                      else Inr s6) of
                  Inl e \<Rightarrow> Inl e
                | Inr s7 \<Rightarrow>
                   (case (if attrId attr = ''palette''
                          then map_sum id (\<lambda>vs. s7\<lparr>custom := Some vs\<rparr>)
                                 (splitValue (attrValue attr))
                          else Inr s7) of
                      Inl e \<Rightarrow> Inl e
                    | Inr s8 \<Rightarrow>
                       (case (if attrId attr = ''style''
                              then map_sum id (\<lambda>vs. s8\<lparr>custom := Some vs\<rparr>)
                                     (splitValue (attrValue attr))
                              else Inr s8) of
                          Inl e \<Rightarrow> Inl e
                        | Inr s9 \<Rightarrow>
                            Inr (ws @ w4 @ w5,
                                 if attrId attr = ''count''
                                 then s9\<lparr>count := Some (toNum (attrValue attr))\<rparr>
                                 else s9)))))"

fun specLoop ::
  "(string \<Rightarrow> num) \<Rightarrow> (attrValue \<Rightarrow> num) \<Rightarrow> attribute list \<Rightarrow> effect list \<times> layerSpec
     \<Rightarrow> effect list \<times> (error + layerSpec)" where
  "specLoop parseNum toNum [] st = (fst st, Inr (snd st))"
| "specLoop parseNum toNum (attr # attrs) st =
     (case specStep parseNum toNum attr st of
        Inl e \<Rightarrow> (fst st, Inl e)
      | Inr st' \<Rightarrow> specLoop parseNum toNum attrs st')"

definition getLayerSpec ::
  "(string \<Rightarrow> num) \<Rightarrow> (attrValue \<Rightarrow> num) \<Rightarrow> attribute list \<Rightarrow> effect list \<times> (error + layerSpec)" where
  "getLayerSpec parseNum toNum attrs =
     specLoop parseNum toNum attrs
       ([], \<lparr>hidden = False, opacity = Num 1, count = None, bandCombo = None, custom = None,
              minValues = None, squash = None, maxValues = None, disabled = None\<rparr>)"


text \<open>
  The configuration: the own properties of the catalog \<^verbatim>\<open>config.layers\<close>, a finite map
  from layer ids to layer definitions (objects, of any type \<open>'c\<close>: the codec only tests
  whether an id has one), and those of the optional table \<^verbatim>\<open>config.redirects.layers\<close>,
  from ids to ids.
\<close>

record 'c config =
  layers :: "string \<rightharpoonup> 'c"
  redirects :: "(string \<rightharpoonup> string) option"

text \<open>
  \<^verbatim>\<open>config.redirects.layers[id] || id\<close>, for a string \<^verbatim>\<open>id\<close>: an empty string is falsy, an
  inherited property is truthy.
\<close>

definition redirect :: "'c config \<Rightarrow> string \<Rightarrow> layerKey" where
  "redirect cfg i =
     (case redirects cfg of
        None \<Rightarrow> Str i
      | Some table \<Rightarrow>
          (case getProperty table i of
             Missing \<Rightarrow> Str i
           | Own r \<Rightarrow> if r = [] then Str i else Str r
           | FromPrototype n \<Rightarrow> Inherited n))"

text \<open>
  The test \<^verbatim>\<open>config.layers[id]\<close>: a layer definition of the catalog and an inherited
  property are both truthy.
\<close>

definition hasLayer :: "(string \<Rightarrow> string) \<Rightarrow> 'c config \<Rightarrow> layerKey \<Rightarrow> bool" where
  "hasLayer nativeText cfg k =
     (case getProperty (layers cfg) (keyText nativeText k) of
        Missing \<Rightarrow> False
      | Own c \<Rightarrow> True
      | FromPrototype n \<Rightarrow> True)"

text \<open>
  \<^verbatim>\<open>createLayerArrayFromState\<close>. \<^verbatim>\<open>addLayer\<close> (of \<^verbatim>\<open>selectors.js\<close>, not among the sources)
  is a parameter: it receives the id, the decoded attributes and the array built so far
  (the catalog, \<^verbatim>\<open>null\<close> and the projection are the same at every call), and returns the
  new array of active layers, of any type \<open>'l\<close>.
\<close>

fun addLayers ::
  "(string \<Rightarrow> string) \<Rightarrow> (string \<Rightarrow> num) \<Rightarrow> (attrValue \<Rightarrow> num)
     \<Rightarrow> (layerKey \<Rightarrow> layerSpec \<Rightarrow> 'l list \<Rightarrow> 'l list)
     \<Rightarrow> 'c config \<Rightarrow> lstate list \<Rightarrow> 'l list \<Rightarrow> effect list \<times> (error + 'l list)" where
  "addLayers nativeText parseNum toNum addLayer cfg [] layerArray = ([], Inr layerArray)"
| "addLayers nativeText parseNum toNum addLayer cfg (layerDef # rest) layerArray =
     (if \<not> hasLayer nativeText cfg (layerId layerDef)
      then (let (es, r) = addLayers nativeText parseNum toNum addLayer cfg rest layerArray
            in (Warn (''No such layer: '' @ keyText nativeText (layerId layerDef)) # es, r))
      else
        (case getLayerSpec parseNum toNum (attributes layerDef) of
           (ws, Inl e) \<Rightarrow> (ws, Inl e)
         | (ws, Inr spec) \<Rightarrow>
             (let (es, r) = addLayers nativeText parseNum toNum addLayer cfg rest
                              (addLayer (layerId layerDef) spec layerArray)
              in (ws @ es, r))))"

definition createLayerArrayFromState ::
  "(string \<Rightarrow> string) \<Rightarrow> (string \<Rightarrow> num) \<Rightarrow> (attrValue \<Rightarrow> num)
     \<Rightarrow> (layerKey \<Rightarrow> layerSpec \<Rightarrow> 'l list \<Rightarrow> 'l list)
     \<Rightarrow> lstate list \<Rightarrow> 'c config \<Rightarrow> effect list \<times> (error + 'l list)" where
  "createLayerArrayFromState nativeText parseNum toNum addLayer lstates cfg =
     addLayers nativeText parseNum toNum addLayer cfg (rev lstates) []"

subsection \<open>Permalink versions 1.0 and 1.1\<close>

text \<open>The callback of \<^verbatim>\<open>lodashEach(ids, ...)\<close>: the effects and the states it pushes.\<close>

definition parse11Id ::
  "(string \<Rightarrow> string) \<Rightarrow> 'c config \<Rightarrow> string \<Rightarrow> effect list \<times> lstate list" where
  "parse11Id nativeText cfg token =
     (if token = ''baselayers'' \<or> token = ''overlays'' then ([], [])
      else
        (let visible = \<not> (token \<noteq> [] \<and> hd token = CHR ''!'');
             i = redirect cfg (if visible then token else tl token)
         in if \<not> hasLayer nativeText cfg i
            then ([Warn (''No such layer: '' @ keyText nativeText i)], [])
            else ([PushEvent i],
                  [\<lparr>layerId = i,
                    attributes = (if visible then []
                                  else [\<lparr>attrId = ''hidden'', attrValue = JTrue\<rparr>])\<rparr>])))"

definition layersParse11 ::
  "(string \<Rightarrow> string) \<Rightarrow> (string \<Rightarrow> num) \<Rightarrow> (attrValue \<Rightarrow> num)
     \<Rightarrow> (layerKey \<Rightarrow> layerSpec \<Rightarrow> 'l list \<Rightarrow> 'l list)
     \<Rightarrow> string \<Rightarrow> 'c config \<Rightarrow> effect list \<times> (error + 'l list)" where
  "layersParse11 nativeText parseNum toNum addLayer str cfg =
     (let ids = splitOn (\<lambda>c. c = CHR ''~'' \<or> c = CHR '','' \<or> c = CHR ''.'') str;
          parsed = map (parse11Id nativeText cfg) ids;
          (es, r) = createLayerArrayFromState nativeText parseNum toNum addLayer
                      (concat (map snd parsed)) cfg
      in (concat (map fst parsed) @ es, r))"

subsection \<open>Permalink version 1.2\<close>

text \<open>
  \<^verbatim>\<open>str.match(/[^(,]+(\([^)]*\))?,?/g)\<close>: every match starts at a character other than
  \<^verbatim>\<open>(\<close> and \<^verbatim>\<open>,\<close>, takes the longest run of such characters, then a parenthesised group if
  a closing parenthesis follows somewhere, then a comma if one is next. Characters at
  which no match starts are skipped.
\<close>

definition idChar :: "char \<Rightarrow> bool" where
  "idChar c = (c \<noteq> CHR ''('' \<and> c \<noteq> CHR '','')"

definition groupAt :: "string \<Rightarrow> string" where
  "groupAt rest =
     (case rest of
        [] \<Rightarrow> []
      | c # r \<Rightarrow>
          if c = CHR ''('' \<and> CHR '')'' \<in> set r
          then c # takeWhile (\<lambda>x. x \<noteq> CHR '')'') r @ '')''
          else [])"

definition commaAt :: "string \<Rightarrow> string" where
  "commaAt rest = (case rest of [] \<Rightarrow> [] | c # r \<Rightarrow> if c = CHR '','' then [c] else [])"

function matchLayerDefs :: "string \<Rightarrow> string list" where
  "matchLayerDefs [] = []"
| "matchLayerDefs (c # cs) =
     (if \<not> idChar c then matchLayerDefs cs
      else
        (let ident = takeWhile idChar (c # cs);
             rest = dropWhile idChar (c # cs);
             grp = groupAt rest;
             rest2 = drop (length grp) rest;
             comma = commaAt rest2
         in (ident @ grp @ comma) # matchLayerDefs (drop (length comma) rest2)))"
  by pat_completeness auto
termination matchLayerDefs
proof (relation "measure length")
  show "wf (measure length)" by simp
next
  fix c :: char and cs :: string
  show "(cs, c # cs) \<in> measure length" by simp
next
  fix c :: char and cs ident rest grp rest2 comma :: string
  assume "\<not> \<not> idChar c" and "rest = dropWhile idChar (c # cs)"
    and "rest2 = drop (length grp) rest"
  then have "length rest2 \<le> length (dropWhile idChar cs)" by simp
  also have "\<dots> \<le> length cs" by (rule length_dropWhile_le)
  finally show "(drop (length comma) rest2, c # cs) \<in> measure length" by simp
qed

text \<open>
  \<^verbatim>\<open>layerDef.match(/\(.*\)/)\<close>: from the first opening parenthesis that has a closing one
  on its line, up to the last closing one of that line (\<^verbatim>\<open>.\<close> matches no line end).
\<close>

definition lineEnd :: "char \<Rightarrow> bool" where
  "lineEnd c = (c = CHR 0x0A \<or> c = CHR 0x0D)"

fun matchParens :: "string \<Rightarrow> string option" where
  "matchParens [] = None"
| "matchParens (c # cs) =
     (let line = takeWhile (\<lambda>x. \<not> lineEnd x) cs
      in if c = CHR ''('' \<and> CHR '')'' \<in> set line
         then Some (c # rev (dropWhile (\<lambda>x. x \<noteq> CHR '')'') (rev line)))
         else matchParens cs)"

definition parseKvp :: "string \<Rightarrow> attribute" where
  "parseKvp kvp =
     (let parts = splitOn (\<lambda>c. c = CHR ''='') kvp
      in if length parts = 1 then \<lparr>attrId = parts ! 0, attrValue = JTrue\<rparr>
         else \<lparr>attrId = parts ! 0, attrValue = JString (parts ! 1)\<rparr>)"

definition parseLayerDef :: "'c config \<Rightarrow> string \<Rightarrow> lstate" where
  "parseLayerDef cfg layerDef =
     \<lparr>layerId = redirect cfg (takeWhile idChar layerDef),
      attributes =
        (case matchParens layerDef of
           None \<Rightarrow> []
         | Some arrayAttr \<Rightarrow>
             (let strAttr = filter (\<lambda>c. c \<noteq> CHR ''('' \<and> c \<noteq> CHR '')'') arrayAttr
              in map parseKvp (splitOn (\<lambda>c. c = CHR '','') strAttr)))\<rparr>"

text \<open>
  The body of the \<^verbatim>\<open>try\<close> of \<^verbatim>\<open>layersParse12\<close>, and the function with its \<^verbatim>\<open>catch\<close>.
  \<^verbatim>\<open>resetLayers\<close> (of \<^verbatim>\<open>selectors.js\<close>, not among the sources) is a parameter: the
  default layers of the configuration.
\<close>

definition parse12Body ::
  "(string \<Rightarrow> string) \<Rightarrow> (string \<Rightarrow> num) \<Rightarrow> (attrValue \<Rightarrow> num)
     \<Rightarrow> (layerKey \<Rightarrow> layerSpec \<Rightarrow> 'l list \<Rightarrow> 'l list)
     \<Rightarrow> string \<Rightarrow> 'c config \<Rightarrow> effect list \<times> (error + 'l list)" where
  "parse12Body nativeText parseNum toNum addLayer str cfg =
     (let lstates = map (parseLayerDef cfg) (matchLayerDefs str);
          (es, r) = createLayerArrayFromState nativeText parseNum toNum addLayer lstates cfg
      in (map (\<lambda>l. PushEvent (layerId l)) lstates @ es, r))"

text \<open>
  \<^verbatim>\<open>${e}\<close> in the warning of the \<^verbatim>\<open>catch\<close>: the name of the error, a colon and its message.
  The one exception of the body is the \<^verbatim>\<open>TypeError\<close> of \<^verbatim>\<open>attr.value.split(';')\<close>; its
  message is worded by the engine, here as V8 and SpiderMonkey do.
\<close>

definition errorText :: "error \<Rightarrow> string" where
  "errorText e = (case e of TypeError \<Rightarrow> ''TypeError: attr.value.split is not a function'')"

definition layersParse12 ::
  "(string \<Rightarrow> string) \<Rightarrow> (string \<Rightarrow> num) \<Rightarrow> (attrValue \<Rightarrow> num)
     \<Rightarrow> (layerKey \<Rightarrow> layerSpec \<Rightarrow> 'l list \<Rightarrow> 'l list)
     \<Rightarrow> ('c config \<Rightarrow> 'l list) \<Rightarrow> string \<Rightarrow> 'c config \<Rightarrow> effect list \<times> 'l list" where
  "layersParse12 nativeText parseNum toNum addLayer resetLayers str cfg =
     (case parse12Body nativeText parseNum toNum addLayer str cfg of
        (es, Inr layerArray) \<Rightarrow> (es, layerArray)
      | (es, Inl e) \<Rightarrow>
          (es @ [Warn (''Error Parsing layers: '' @ errorText e),
                 Log ''reverting to default layers''],
           resetLayers cfg))"

subsection \<open>Serialization\<close>

text \<open>
  The band combination of a layer is an object; \<^verbatim>\<open>JSON.stringify\<close> writes it as text.
  (Its strings are band names and keys: they hold no quote, backslash or control
  character, which the text would escape.)
\<close>

datatype json = JsonString string | JsonArray "json list" | JsonObject "(string \<times> json) list"

definition quoted :: "string \<Rightarrow> string" where
  "quoted str = CHR 0x22 # str @ [CHR 0x22]"

fun joinWith :: "string \<Rightarrow> string list \<Rightarrow> string" where
  "joinWith sep [] = []"
| "joinWith sep [x] = x"
| "joinWith sep (x # y # ys) = x @ sep @ joinWith sep (y # ys)"

fun stringify :: "json \<Rightarrow> string" where
  "stringify (JsonString str) = quoted str"
| "stringify (JsonArray xs) = ''['' @ joinWith '','' (map stringify xs) @ '']''"
| "stringify (JsonObject kvs) =
     ''{'' @ joinWith '','' (map (\<lambda>(k, v). quoted k @ '':'' @ stringify v) kvs) @ ''}''"

text \<open>
  \<^verbatim>\<open>encodeURIComponent\<close> on ASCII text: letters, digits and \<^verbatim>\<open>-_.!~*'()\<close> stay, every other
  character becomes \<^verbatim>\<open>%\<close> and its code in two hexadecimal digits.
\<close>

definition unreserved :: "char \<Rightarrow> bool" where
  "unreserved c =
     (let n = (of_char c :: nat)
      in (48 \<le> n \<and> n \<le> 57) \<or> (65 \<le> n \<and> n \<le> 90) \<or> (97 \<le> n \<and> n \<le> 122)
         \<or> c \<in> set ''-_.!~*()'' \<or> n = 39)"

definition hexDigit :: "nat \<Rightarrow> char" where
  "hexDigit n = ''0123456789ABCDEF'' ! n"

definition encodeURIComponent :: "string \<Rightarrow> string" where
  "encodeURIComponent str =
     concat (map (\<lambda>c. if unreserved c then [c]
                       else [CHR ''%'', hexDigit ((of_char c :: nat) div 16),
                             hexDigit ((of_char c :: nat) mod 16)]) str)"

definition replaceAll :: "char \<Rightarrow> char \<Rightarrow> string \<Rightarrow> string" where
  "replaceAll a b str = map (\<lambda>c. if c = a then b else c) str"

text \<open>An attribute as the serializer builds it: the value may be missing.\<close>

datatype itemValue = NoValue | NumberValue num | StringValue string

record itemAttribute =
  itemId :: string
  itemValue :: itemValue

text \<open>
  An active layer as \<^verbatim>\<open>serializeLayers\<close> reads it. The fields \<^verbatim>\<open>palette\<close>, \<^verbatim>\<open>vectorStyle\<close>,
  \<^verbatim>\<open>custom\<close>, \<^verbatim>\<open>min\<close>, \<^verbatim>\<open>max\<close>, \<^verbatim>\<open>squash\<close> and \<^verbatim>\<open>disabled\<close> are only tested for being set.
\<close>

record activeLayer =
  defId :: string
  visible :: bool
  defOpacity :: num
  defBandCombo :: "json option"
  palette :: bool
  vectorStyle :: bool
  hasCustom :: bool
  hasMin :: bool
  hasMax :: bool
  hasSquash :: bool
  hasDisabled :: bool
  layerType :: string

definition lessThanOne :: "num \<Rightarrow> bool" where
  "lessThanOne v = (case v of NaN \<Rightarrow> False | Num x \<Rightarrow> x < 1)"

text \<open>
  Modelled from the spec: \<^verbatim>\<open>util.appendAttributesForURL\<close> is not among the sources. The
  spec's grammar of version 1.2 has each layer as its id, "optionally followed by
  \<^verbatim>\<open>(k1=v1,k2=v2,...)\<close>", where "boolean keys may omit \<^verbatim>\<open>=value\<close>". \<open>numText\<close> writes a
  number as JavaScript does.
\<close>

definition attributeText :: "(num \<Rightarrow> string) \<Rightarrow> itemAttribute \<Rightarrow> string" where
  "attributeText numText a =
     (case itemValue a of
        NoValue \<Rightarrow> itemId a
      | NumberValue v \<Rightarrow> itemId a @ ''='' @ numText v
      | StringValue str \<Rightarrow> itemId a @ ''='' @ str)"

definition appendAttributesForURL :: "(num \<Rightarrow> string) \<Rightarrow> string \<Rightarrow> itemAttribute list \<Rightarrow> string" where
  "appendAttributesForURL numText i attrs =
     (if attrs = [] then i
      else i @ ''('' @ joinWith '','' (map (attributeText numText) attrs) @ '')'')"

text \<open>
  \<^verbatim>\<open>serializeLayers\<close>, for one layer and for the list. \<^verbatim>\<open>getPaletteAttributeArray\<close>,
  \<^verbatim>\<open>getVectorStyleAttributeArray\<close> and \<^verbatim>\<open>getGranuleLayer\<close> (not among the sources) are
  parameters, the last one as the count of the granule layer of an id, if there is one.
\<close>

definition serializeLayer ::
  "(num \<Rightarrow> string) \<Rightarrow> (string \<Rightarrow> itemAttribute list) \<Rightarrow> (activeLayer \<Rightarrow> itemAttribute list)
     \<Rightarrow> (string \<Rightarrow> num option) \<Rightarrow> activeLayer \<Rightarrow> string" where
  "serializeLayer numText getPaletteAttributeArray getVectorStyleAttributeArray getGranuleCount def =
     (let a1 = (if \<not> visible def then [\<lparr>itemId = ''hidden'', itemValue = NoValue\<rparr>] else []);
          a2 = (if lessThanOne (defOpacity def)
                then [\<lparr>itemId = ''opacity'', itemValue = NumberValue (defOpacity def)\<rparr>]
                else []);
          a3 = (case defBandCombo def of
                  None \<Rightarrow> []
                | Some combo \<Rightarrow>
                    [\<lparr>itemId = ''bandCombo'',
                      itemValue = StringValue
                        (encodeURIComponent
                           (replaceAll (CHR '')'') (CHR ''>'')
                              (replaceAll (CHR ''('') (CHR ''<'') (stringify combo))))\<rparr>]);
          a4 = (if palette def \<and> (hasCustom def \<or> hasMin def \<or> hasMax def \<or> hasSquash def
                                  \<or> hasDisabled def)
                then getPaletteAttributeArray (defId def)
                else if vectorStyle def \<and> (hasCustom def \<or> hasMin def \<or> hasMax def)
                then getVectorStyleAttributeArray def
                else if layerType def = ''granule''
                then (case getGranuleCount (defId def) of
                        None \<Rightarrow> []
                      | Some n \<Rightarrow> if n \<noteq> Num 20
                                  then [\<lparr>itemId = ''count'', itemValue = NumberValue n\<rparr>]
                                  else [])
                else [])
      in appendAttributesForURL numText (defId def) (a1 @ a2 @ a3 @ a4))"

definition serializeLayers ::
  "(num \<Rightarrow> string) \<Rightarrow> (string \<Rightarrow> itemAttribute list) \<Rightarrow> (activeLayer \<Rightarrow> itemAttribute list)
     \<Rightarrow> (string \<Rightarrow> num option) \<Rightarrow> activeLayer list \<Rightarrow> string list" where
  "serializeLayers numText getPaletteAttributeArray getVectorStyleAttributeArray getGranuleCount defs =
     map (serializeLayer numText getPaletteAttributeArray getVectorStyleAttributeArray
            getGranuleCount) defs"

subsection \<open>Exceptions of the decoding\<close>

definition bareKey :: "attribute \<Rightarrow> bool" where
  "bareKey a = (attrValue a = JTrue
                \<and> attrId a \<in> {''disabled'', ''bands'', ''palette'', ''style''})"









text \<open>
  The inputs on which the body of \<^verbatim>\<open>layersParse12\<close> throws: a layer that the test
  \<^verbatim>\<open>config.layers[id]\<close> lets through is given one of the keys \<^verbatim>\<open>disabled\<close>, \<^verbatim>\<open>bands\<close>,
  \<^verbatim>\<open>palette\<close>, \<^verbatim>\<open>style\<close> without a value.
\<close>

definition malformed :: "(string \<Rightarrow> string) \<Rightarrow> 'c config \<Rightarrow> string \<Rightarrow> bool" where
  "malformed nativeText cfg str =
     (\<exists>l\<in>set (map (parseLayerDef cfg) (matchLayerDefs str)).
        hasLayer nativeText cfg (layerId l) \<and> (\<exists>a\<in>set (attributes l). bareKey a))"








text \<open>
  A catalog of two layers without a table of redirects, the text of a built-in function
  as V8 prints it, and an \<^verbatim>\<open>addLayer\<close> that puts the layer in front.
\<close>

definition demoConfig :: "unit config" where
  "demoConfig = \<lparr>layers = [''modis_terra'' \<mapsto> (), ''viirs'' \<mapsto> ()], redirects = None\<rparr>"

definition demoNativeText :: "string \<Rightarrow> string" where
  "demoNativeText n =
     ''function '' @ (if n = ''constructor'' then ''Object'' else n) @ ''() { [native code] }''"

definition demoAdd :: "layerKey \<Rightarrow> layerSpec \<Rightarrow> (layerKey \<times> bool) list \<Rightarrow> (layerKey \<times> bool) list" where
  "demoAdd i spec ls = (i, \<not> hidden spec) # ls"

definition demoReset :: "unit config \<Rightarrow> (layerKey \<times> bool) list" where
  "demoReset cfg = [(Str ''default_layer'', True)]"

definition noNumber :: "'a \<Rightarrow> num" where
  "noNumber x = NaN"



text \<open>
  An unbalanced parenthesis can still come with the fallback, when a group closes and
  holds a bare key: \<^verbatim>\<open>modis_terra((palette)\<close> is one match, with the attribute \<^verbatim>\<open>palette\<close>.
  So does an id that the catalog only inherits: \<^verbatim>\<open>constructor(palette)\<close>.
\<close>

lemma malformed_examples:
  "malformed demoNativeText demoConfig ''modis_terra((palette)''
   \<and> malformed demoNativeText demoConfig ''modis_terra(palette))''
   \<and> malformed demoNativeText demoConfig ''constructor(palette)''
   \<and> \<not> malformed demoNativeText demoConfig ''nope(palette)''"
  by code_simp

subsection \<open>Unknown layer ids\<close>

lemma demoConfig_lookup:
  "hasLayer nativeText demoConfig (Str ''constructor'')"
  "\<not> hasLayer nativeText demoConfig (Str ''nope'')"
  "redirect demoConfig ''constructor'' = Str ''constructor''"
  "redirect demoConfig ''nope'' = Str ''nope''"
  by (simp_all add: hasLayer_def getProperty_def keyText_def demoConfig_def redirect_def
      objectPrototypeNames_def)

text \<open>
  With a table of redirects, an old id is replaced by the new one, and the name of an
  inherited property by the inherited function, whose text the catalog does not have.
\<close>

definition redirectConfig :: "unit config" where
  "redirectConfig = \<lparr>layers = [''viirs'' \<mapsto> ()], redirects = Some [''old_viirs'' \<mapsto> ''viirs'']\<rparr>"

lemma redirect_examples:
  "layersParse11 demoNativeText noNumber noNumber demoAdd ''!old_viirs,constructor''
     redirectConfig =
     ([PushEvent (Str ''viirs''), Warn ''No such layer: function Object() { [native code] }''],
      Inr [(Str ''viirs'', False)])
   \<and> layersParse12 demoNativeText noNumber noNumber demoAdd demoReset
       ''old_viirs(hidden),constructor'' redirectConfig =
     ([PushEvent (Str ''viirs''), PushEvent (Inherited ''constructor''),
       Warn ''No such layer: function Object() { [native code] }''],
      [(Str ''viirs'', False)])"
  by code_simp

text \<open>
  Claim C8 states that a referenced id absent from the catalog is dropped with a warning.
  The code tests \<^verbatim>\<open>config.layers[id]\<close>, which is also truthy for the name of a property
  the catalog inherits. At the version 1.1 permalink \<^verbatim>\<open>constructor,nope\<close> and a catalog
  that has neither id (and no table of redirects), \<^verbatim>\<open>nope\<close> is dropped with a warning, and
  \<^verbatim>\<open>constructor\<close> is reported as included, not warned about, and handed to \<^verbatim>\<open>addLayer\<close>;
  so is it by \<^verbatim>\<open>createLayerArrayFromState\<close> in a parsed state. This holds whatever the
  parameters are.
\<close>

theorem inherited_name_not_dropped:
  "layers demoConfig ''constructor'' = None
   \<and> layers demoConfig ''nope'' = None
   \<and> layersParse11 nativeText parseNum toNum addLayer ''constructor,nope'' demoConfig =
       ([PushEvent (Str ''constructor''), Warn ''No such layer: nope''],
        Inr (addLayer (Str ''constructor'')
               \<lparr>hidden = False, opacity = Num 1, count = None, bandCombo = None, custom = None,
                minValues = None, squash = None, maxValues = None, disabled = None\<rparr> []))
   \<and> createLayerArrayFromState nativeText parseNum toNum addLayer
       [\<lparr>layerId = Str ''constructor'', attributes = []\<rparr>, \<lparr>layerId = Str ''nope'', attributes = []\<rparr>]
       demoConfig =
       ([Warn ''No such layer: nope''],
        Inr (addLayer (Str ''constructor'')
               \<lparr>hidden = False, opacity = Num 1, count = None, bandCombo = None, custom = None,
                minValues = None, squash = None, maxValues = None, disabled = None\<rparr> []))"
proof -
  have ids: "splitOn (\<lambda>c. c = CHR ''~'' \<or> c = CHR '','' \<or> c = CHR ''.'') ''constructor,nope''
             = [''constructor'', ''nope'']"
    by code_simp
  have catalog: "layers demoConfig ''constructor'' = None" "layers demoConfig ''nope'' = None"
    by (simp_all add: demoConfig_def)
  have states: "createLayerArrayFromState nativeText parseNum toNum addLayer
       [\<lparr>layerId = Str ''constructor'', attributes = []\<rparr>, \<lparr>layerId = Str ''nope'', attributes = []\<rparr>]
       demoConfig =
       ([Warn ''No such layer: nope''],
        Inr (addLayer (Str ''constructor'')
               \<lparr>hidden = False, opacity = Num 1, count = None, bandCombo = None, custom = None,
                minValues = None, squash = None, maxValues = None, disabled = None\<rparr> []))"
    by (simp add: createLayerArrayFromState_def demoConfig_lookup getLayerSpec_def keyText_def)
  have one: "createLayerArrayFromState nativeText parseNum toNum addLayer
       [\<lparr>layerId = Str ''constructor'', attributes = []\<rparr>] demoConfig =
       ([],
        Inr (addLayer (Str ''constructor'')
               \<lparr>hidden = False, opacity = Num 1, count = None, bandCombo = None, custom = None,
                minValues = None, squash = None, maxValues = None, disabled = None\<rparr> []))"
    by (simp add: createLayerArrayFromState_def demoConfig_lookup getLayerSpec_def)
  have parse: "layersParse11 nativeText parseNum toNum addLayer ''constructor,nope'' demoConfig =
       ([PushEvent (Str ''constructor''), Warn ''No such layer: nope''],
        Inr (addLayer (Str ''constructor'')
               \<lparr>hidden = False, opacity = Num 1, count = None, bandCombo = None, custom = None,
                minValues = None, squash = None, maxValues = None, disabled = None\<rparr> []))"
    unfolding layersParse11_def ids
    by (simp add: parse11Id_def demoConfig_lookup Let_def keyText_def one)
  show ?thesis
    using catalog states parse by simp
qed

subsection \<open>The round trip\<close>

definition bandLayer :: activeLayer where
  "bandLayer =
     \<lparr>defId = ''modis_terra'', visible = True, defOpacity = Num 1,
      defBandCombo = Some (JsonObject [(''r'', JsonString ''B07''), (''g'', JsonString ''B05'')]),
      palette = False, vectorStyle = False, hasCustom = False, hasMin = False, hasMax = False,
      hasSquash = False, hasDisabled = False, layerType = ''tile''\<rparr>"

definition keepSpec ::
  "layerKey \<Rightarrow> layerSpec \<Rightarrow> (layerKey \<times> layerSpec) list \<Rightarrow> (layerKey \<times> layerSpec) list" where
  "keepSpec i spec ls = (i, spec) # ls"

text \<open>
  Claim C3 states that parsing what the serializer wrote restores the band combination
  of a layer. The code at a visible layer of the catalog with full opacity and the band
  combination \<^verbatim>\<open>{"r":"B07","g":"B05"}\<close>: the serializer writes the attribute under the key
  \<^verbatim>\<open>bandCombo\<close>, and \<^verbatim>\<open>getLayerSpec\<close>, which reads band combinations under the key
  \<^verbatim>\<open>bands\<close>, hands \<^verbatim>\<open>addLayer\<close> attributes without a band combination. This holds whatever
  the parameters are.
\<close>

theorem bandCombo_not_restored:
  "serializeLayers numText getPaletteAttributeArray getVectorStyleAttributeArray getGranuleCount
     [bandLayer] =
     [''modis_terra(bandCombo=%7B%22r%22%3A%22B07%22%2C%22g%22%3A%22B05%22%7D)'']
   \<and> layersParse12 nativeText parseNum toNum keepSpec resetLayers
       (joinWith '',''
          (serializeLayers numText getPaletteAttributeArray getVectorStyleAttributeArray
             getGranuleCount [bandLayer]))
       demoConfig =
     ([PushEvent (Str ''modis_terra'')],
      [(Str ''modis_terra'',
        \<lparr>hidden = False, opacity = Num 1, count = None, bandCombo = None, custom = None,
         minValues = None, squash = None, maxValues = None, disabled = None\<rparr>)])"
proof -
  have ser: "serializeLayers numText getPaletteAttributeArray getVectorStyleAttributeArray
      getGranuleCount [bandLayer] =
      [''modis_terra(bandCombo=%7B%22r%22%3A%22B07%22%2C%22g%22%3A%22B05%22%7D)'']"
    by code_simp
  have par: "layersParse12 nativeText parseNum toNum keepSpec resetLayers
       ''modis_terra(bandCombo=%7B%22r%22%3A%22B07%22%2C%22g%22%3A%22B05%22%7D)'' demoConfig =
     ([PushEvent (Str ''modis_terra'')],
      [(Str ''modis_terra'',
        \<lparr>hidden = False, opacity = Num 1, count = None, bandCombo = None, custom = None,
         minValues = None, squash = None, maxValues = None, disabled = None\<rparr>)])"
    by code_simp
  show ?thesis
    unfolding ser using par by simp
qed

end
